theory Spec2Isabelle
  imports Complex_Main "HOL-Library.AList"
begin

section \<open>Runtime values of the settings store\<close>

text \<open>
  The settings store hands the program a value of TypeScript type \<open>unknown\<close>. Such a
  value is modelled as the JSON-like data the store can hold. An object is the list of its
  own properties in enumeration order; an array is the list of its elements. A character
  is a code unit below 256.

  An object also inherits the members of \<open>Object.prototype\<close>. The fixed names the
  program reads from a stored value, \<open>defaultMode\<close> and \<open>siteOverrides\<close>, are not among
  them, so \<open>getProp\<close> reads own properties. Where the program uses a computed name on
  an object it made with \<open>{}\<close> (the assignment in \<open>normalizeSettings\<close>, the lookup in
  \<open>applyThemeFromSettings\<close>), the inherited members are modelled: see
  \<open>assignProperty\<close> and \<open>readOverride\<close>.
\<close>

datatype jsval =
    JUndefined
  | JNull
  | JBool bool
  | JNum real
  | JStr string
  | JArr "jsval list"
  | JObj "(string \<times> jsval) list"

text \<open>Decimal numeral of an array index, as \<open>Object.entries\<close> names array elements.\<close>

definition digitChar :: "nat \<Rightarrow> char" where
  "digitChar d = ''0123456789'' ! d"

fun indexKey :: "nat \<Rightarrow> string" where
  "indexKey n = (if n < 10 then [digitChar n] else indexKey (n div 10) @ [digitChar (n mod 10)])"

declare indexKey.simps [simp del]

text \<open>
  \<open>Object.entries(value)\<close>: the own enumerable properties. The program calls it only on
  values that passed \<open>isRecord\<close>; the last equation is never reached from there.
\<close>

fun entries :: "jsval \<Rightarrow> (string \<times> jsval) list" where
  "entries (JObj kvs) = kvs"
| "entries (JArr xs) = zip (map indexKey [0..<length xs]) xs"
| "entries _ = []"

text \<open>\<open>value.name\<close> on a value that passed \<open>isRecord\<close>; an absent property reads \<open>undefined\<close>.\<close>

fun getProp :: "jsval \<Rightarrow> string \<Rightarrow> jsval" where
  "getProp (JObj kvs) k = (case map_of kvs k of Some v \<Rightarrow> v | None \<Rightarrow> JUndefined)"
| "getProp (JArr xs) k =
     (if k = ''length'' then JNum (real (length xs))
      else case map_of (entries (JArr xs)) k of Some v \<Rightarrow> v | None \<Rightarrow> JUndefined)"
| "getProp _ k = JUndefined"

section \<open>shared/theme.ts\<close>

text \<open>\<open>typeof value === 'object' && value !== null\<close>: arrays are objects too.\<close>

fun isRecord :: "jsval \<Rightarrow> bool" where
  "isRecord (JObj _) = True"
| "isRecord (JArr _) = True"
| "isRecord _ = False"

definition isThemeMode :: "jsval \<Rightarrow> bool" where
  "isThemeMode v = (v = JStr ''light'' \<or> v = JStr ''dark'' \<or> v = JStr ''system'')"

definition defaultSettings :: jsval where
  "defaultSettings = JObj [(''defaultMode'', JStr ''system''), (''siteOverrides'', JObj [])]"

text \<open>
  \<open>obj[name] = v\<close> on an object made with \<open>{}\<close>, as its own properties afterwards. The
  name \<open>__proto__\<close> reaches the setter inherited from \<open>Object.prototype\<close>, which sets the
  prototype for an object or \<open>null\<close> and ignores every other value: it never makes an own
  property. Every other name overwrites the own property in place or appends a new one.
\<close>

definition assignProperty :: "string \<Rightarrow> jsval \<Rightarrow> (string \<times> jsval) list \<Rightarrow> (string \<times> jsval) list" where
  "assignProperty name v props = (if name = ''__proto__'' then props else AList.update name v props)"

text \<open>
  The loop of \<open>normalizeSettings\<close> over \<open>Object.entries(value.siteOverrides)\<close>; the second
  argument is the object \<open>siteOverrides\<close> built so far, by \<open>siteOverrides[hostname] = mode\<close>.
\<close>

fun copyOverrides :: "(string \<times> jsval) list \<Rightarrow> (string \<times> jsval) list \<Rightarrow> (string \<times> jsval) list" where
  "copyOverrides [] siteOverrides = siteOverrides"
| "copyOverrides ((hostname, mode) # rest) siteOverrides =
     (if isThemeMode mode then copyOverrides rest (assignProperty hostname mode siteOverrides)
      else copyOverrides rest siteOverrides)"

definition normalizeSettings :: "jsval \<Rightarrow> jsval" where
  "normalizeSettings v =
     (if \<not> isRecord v then defaultSettings
      else
        let defaultMode =
              (if isThemeMode (getProp v ''defaultMode'') then getProp v ''defaultMode''
               else getProp defaultSettings ''defaultMode'');
            siteOverrides =
              (if isRecord (getProp v ''siteOverrides'')
               then copyOverrides (entries (getProp v ''siteOverrides'')) []
               else [])
        in JObj [(''defaultMode'', defaultMode), (''siteOverrides'', JObj siteOverrides)])"

text \<open>
  The TypeScript types \<open>ThemeMode\<close> (the string literals \<open>'light' | 'dark' | 'system'\<close>)
  and \<open>ThemeSettings\<close>. Code that is typed with them (the content script, the popup) is
  modelled on the typed values, with \<open>siteOverrides\<close> as an association list that
  \<open>map_of\<close> reads; \<open>asThemeSettings\<close> reads a runtime value at that type.
\<close>

datatype ThemeMode = Light | Dark | System

record ThemeSettings =
  defaultMode :: ThemeMode
  siteOverrides :: "(string \<times> ThemeMode) list"

text \<open>The string a mode is at run time.\<close>

fun modeName :: "ThemeMode \<Rightarrow> string" where
  "modeName Light = ''light''"
| "modeName Dark = ''dark''"
| "modeName System = ''system''"

fun asThemeMode :: "jsval \<Rightarrow> ThemeMode option" where
  "asThemeMode (JStr s) =
     (if s = ''light'' then Some Light
      else if s = ''dark'' then Some Dark
      else if s = ''system'' then Some System
      else None)"
| "asThemeMode _ = None"

fun asOverrides :: "(string \<times> jsval) list \<Rightarrow> (string \<times> ThemeMode) list option" where
  "asOverrides [] = Some []"
| "asOverrides ((k, v) # rest) =
     (case asThemeMode v of
        None \<Rightarrow> None
      | Some m \<Rightarrow> (case asOverrides rest of None \<Rightarrow> None | Some ms \<Rightarrow> Some ((k, m) # ms)))"

definition asThemeSettings :: "jsval \<Rightarrow> ThemeSettings option" where
  "asThemeSettings v =
     (if isRecord v \<and> isRecord (getProp v ''siteOverrides'') then
        (case asThemeMode (getProp v ''defaultMode'') of
           None \<Rightarrow> None
         | Some dm \<Rightarrow>
             (case asOverrides (entries (getProp v ''siteOverrides'')) of
                None \<Rightarrow> None
              | Some so \<Rightarrow> Some \<lparr>defaultMode = dm, siteOverrides = so\<rparr>))
      else None)"

text \<open>
  The invariant of \<open>ThemeSettings\<close> on a runtime value: \<open>defaultMode\<close> is a theme mode and
  every value of \<open>siteOverrides\<close> is a theme mode.
\<close>

definition isThemeSettings :: "jsval \<Rightarrow> bool" where
  "isThemeSettings v =
     (isRecord v \<and> isThemeMode (getProp v ''defaultMode'') \<and>
      isRecord (getProp v ''siteOverrides'') \<and>
      list_all (\<lambda>(k, m). isThemeMode m) (entries (getProp v ''siteOverrides'')))"

section \<open>The content script\<close>

datatype ThemeScheme = SchemeLight | SchemeDark

text \<open>The string a scheme is at run time; it is what \<open>setAttribute\<close> writes.\<close>

fun schemeName :: "ThemeScheme \<Rightarrow> string" where
  "schemeName SchemeLight = ''light''"
| "schemeName SchemeDark = ''dark''"

definition STYLE_ID :: string where
  "STYLE_ID = ''centurio-theme-style''"

definition INVERT_ATTR :: string where
  "INVERT_ATTR = ''data-centurio-invert''"

definition SCHEME_ATTR :: string where
  "SCHEME_ATTR = ''data-centurio-scheme''"

text \<open>
  \<open>mode === 'system' ? (prefersDark.matches ? 'dark' : 'light') : mode\<close>; the first argument
  is \<open>prefersDark.matches\<close>, the current value of the media query.
\<close>

fun resolveScheme :: "bool \<Rightarrow> ThemeMode \<Rightarrow> ThemeScheme" where
  "resolveScheme prefersDarkMatches System = (if prefersDarkMatches then SchemeDark else SchemeLight)"
| "resolveScheme prefersDarkMatches Light = SchemeLight"
| "resolveScheme prefersDarkMatches Dark = SchemeDark"

text \<open>\<open>scheme === 'dark' ? !pageIsDark : pageIsDark\<close>\<close>

definition shouldInvert :: "ThemeScheme \<Rightarrow> bool \<Rightarrow> bool" where
  "shouldInvert scheme pageIsDark = (if scheme = SchemeDark then \<not> pageIsDark else pageIsDark)"

subsection \<open>The document\<close>

text \<open>
  The part of the DOM the content script reads and writes: the attributes of the root
  element (in their order), whether the document has a \<open>head\<close>, and the elements that carry
  an id, in the order \<open>getElementById\<close> searches them.
\<close>

datatype ParentNode = Head | DocumentElement

record Element =
  elementId :: string
  tagName :: string
  textContent :: string
  parentNode :: ParentNode

record Document =
  rootAttributes :: "(string \<times> string) list"
  hasHead :: bool
  elements :: "Element list"

definition getElementById :: "Document \<Rightarrow> string \<Rightarrow> Element option" where
  "getElementById d i = find (\<lambda>e. elementId e = i) (elements d)"

definition setAttribute :: "string \<Rightarrow> string \<Rightarrow> Document \<Rightarrow> Document" where
  "setAttribute name v d = d\<lparr>rootAttributes := AList.update name v (rootAttributes d)\<rparr>"

definition removeAttribute :: "string \<Rightarrow> Document \<Rightarrow> Document" where
  "removeAttribute name d = d\<lparr>rootAttributes := AList.delete name (rootAttributes d)\<rparr>"

definition newline :: string where
  "newline = [CHR 0x0A]"

definition quoted :: "string \<Rightarrow> string" where
  "quoted s = [CHR 0x22] @ s @ [CHR 0x22]"

text \<open>The template string of \<open>ensureStyleElement\<close>, line by line.\<close>

definition styleText :: string where
  "styleText = newline @ concat (map (\<lambda>l. l @ newline)
     [''html['' @ SCHEME_ATTR @ ''='' @ quoted ''dark'' @ ''] { color-scheme: dark; }'',
      ''html['' @ SCHEME_ATTR @ ''='' @ quoted ''light'' @ ''] { color-scheme: light; }'',
      ''html['' @ INVERT_ATTR @ ''='' @ quoted ''true'' @ ''] {'',
      ''  filter: invert(1) hue-rotate(180deg);'',
      ''  background-color: #0f1116;'',
      ''}'',
      ''html['' @ INVERT_ATTR @ ''='' @ quoted ''true'' @ ''] img,'',
      ''html['' @ INVERT_ATTR @ ''='' @ quoted ''true'' @ ''] video,'',
      ''html['' @ INVERT_ATTR @ ''='' @ quoted ''true'' @ ''] iframe,'',
      ''html['' @ INVERT_ATTR @ ''='' @ quoted ''true'' @ ''] picture,'',
      ''html['' @ INVERT_ATTR @ ''='' @ quoted ''true'' @ ''] svg,'',
      ''html['' @ INVERT_ATTR @ ''='' @ quoted ''true'' @ ''] canvas {'',
      ''  filter: invert(1) hue-rotate(180deg);'',
      ''}''])"

text \<open>
  \<open>(document.head || document.documentElement).appendChild(style)\<close> happens only when no
  element carries the id, so the place of the new element among the others does not
  change what a later \<open>getElementById(STYLE_ID)\<close> finds; it is put last.
\<close>

definition ensureStyleElement :: "Document \<Rightarrow> Document" where
  "ensureStyleElement d =
     (case getElementById d STYLE_ID of
        Some e \<Rightarrow> d
      | None \<Rightarrow>
          d\<lparr>elements := elements d @
            [\<lparr>elementId = STYLE_ID, tagName = ''style'', textContent = styleText,
              parentNode = (if hasHead d then Head else DocumentElement)\<rparr>]\<rparr>)"

definition applyTheme :: "ThemeScheme \<Rightarrow> bool \<Rightarrow> Document \<Rightarrow> Document" where
  "applyTheme scheme invert d =
     setAttribute INVERT_ATTR (if invert then ''true'' else ''false'')
       (setAttribute SCHEME_ATTR (schemeName scheme) (ensureStyleElement d))"

definition clearTheme :: "Document \<Rightarrow> Document" where
  "clearTheme d =
     (let d' = removeAttribute INVERT_ATTR (removeAttribute SCHEME_ATTR d) in
      case getElementById d' STYLE_ID of
        Some style \<Rightarrow> d'\<lparr>elements := remove1 style (elements d')\<rparr>
      | None \<Rightarrow> d')"

subsection \<open>Page brightness\<close>

text \<open>
  JavaScript numbers are modelled as real numbers. \<open>NaN\<close>, which \<open>Number\<close> returns for an
  alpha text such as \<open>1.2.3\<close>, is \<open>None\<close> in the field \<open>a\<close>; the channels come from \<open>\d+\<close>
  and are never \<open>NaN\<close>. Rounding to a double is not modelled, and a numeral too long for
  a double, which is \<open>Infinity\<close> in JavaScript, has its exact value.
\<close>

record Rgb =
  r :: real
  g :: real
  b :: real
  a :: "real option"

text \<open>\<open>\s\<close> and \<open>\d\<close> of the regular expressions, on code units below 256.\<close>

definition isWhitespace :: "char \<Rightarrow> bool" where
  "isWhitespace c = (c \<in> set [CHR 0x09, CHR 0x0A, CHR 0x0B, CHR 0x0C, CHR 0x0D, CHR 0x20, CHR 0xA0])"

definition isDigit :: "char \<Rightarrow> bool" where
  "isDigit c = (c \<in> set ''0123456789'')"

text \<open>\<open>Number\<close> on a text of decimal digits.\<close>

definition decimal :: "string \<Rightarrow> nat" where
  "decimal ds = foldl (\<lambda>n c. 10 * n + (of_char c - 48)) 0 ds"

text \<open>
  \<open>Number\<close> on a text matched by \<open>[0-9.]+\<close>: digits with at most one point and at least one
  digit is a decimal literal; anything else (\<open>.\<close>, \<open>1.2.3\<close>) is \<open>NaN\<close>.
\<close>

definition numberOfAlpha :: "string \<Rightarrow> real option" where
  "numberOfAlpha t =
     (let ip = takeWhile isDigit t; rest = dropWhile isDigit t in
      case rest of
        [] \<Rightarrow> Some (real (decimal ip))
      | point # fp \<Rightarrow>
          if list_all isDigit fp \<and> (ip \<noteq> [] \<or> fp \<noteq> [])
          then Some (real (decimal ip) + real (decimal fp) / 10 ^ length fp)
          else None)"

fun expectChar :: "char \<Rightarrow> string \<Rightarrow> string option" where
  "expectChar c [] = None"
| "expectChar c (x # xs) = (if x = c then Some xs else None)"

text \<open>One or more characters of a class, as many as there are (\<open>\d+\<close>, \<open>[0-9.]+\<close>).\<close>

definition many1 :: "(char \<Rightarrow> bool) \<Rightarrow> string \<Rightarrow> (string \<times> string) option" where
  "many1 p s = (if takeWhile p s = [] then None else Some (takeWhile p s, dropWhile p s))"

text \<open>
  The match of \<open>/^rgba?\((\d+),(\d+),(\d+)(?:,([0-9.]+))?\)$/i\<close>, returning the four
  groups (the fourth may be \<open>undefined\<close>).
\<close>

definition matchColor :: "string \<Rightarrow> (string \<times> string \<times> string \<times> string option) option" where
  "matchColor s =
     (case s of
        c1 # c2 # c3 # s1 \<Rightarrow>
          if c1 \<in> set ''rR'' \<and> c2 \<in> set ''gG'' \<and> c3 \<in> set ''bB'' then
            (let s2 = (case s1 of [] \<Rightarrow> s1 | c4 # t \<Rightarrow> if c4 \<in> set ''aA'' then t else s1) in
             Option.bind (expectChar (CHR ''('') s2) (\<lambda>s3.
             Option.bind (many1 isDigit s3) (\<lambda>(m1, s4).
             Option.bind (expectChar (CHR '','') s4) (\<lambda>s5.
             Option.bind (many1 isDigit s5) (\<lambda>(m2, s6).
             Option.bind (expectChar (CHR '','') s6) (\<lambda>s7.
             Option.bind (many1 isDigit s7) (\<lambda>(m3, s8).
               if s8 = '')'' then Some (m1, m2, m3, None)
               else
                 Option.bind (expectChar (CHR '','') s8) (\<lambda>s9.
                 Option.bind (many1 (\<lambda>c. isDigit c \<or> c = CHR ''.'') s9) (\<lambda>(m4, s10).
                   if s10 = '')'' then Some (m1, m2, m3, Some m4) else None)))))))))
          else None
      | _ \<Rightarrow> None)"

definition parseColor :: "string \<Rightarrow> Rgb option" where
  "parseColor v =
     (case matchColor (filter (\<lambda>c. \<not> isWhitespace c) v) of
        None \<Rightarrow> None
      | Some (m1, m2, m3, m4) \<Rightarrow>
          Some \<lparr>r = real (decimal m1), g = real (decimal m2), b = real (decimal m3),
                a = (case m4 of None \<Rightarrow> Some 1 | Some t \<Rightarrow> numberOfAlpha t)\<rparr>)"

text \<open>The function mapped over the channels in \<open>relativeLuminance\<close>.\<close>

definition linearize :: "real \<Rightarrow> real" where
  "linearize channel =
     (let normalized = channel / 255 in
      if normalized \<le> 0.03928 then normalized / 12.92
      else ((normalized + 0.055) / 1.055) powr 2.4)"

definition relativeLuminance :: "Rgb \<Rightarrow> real" where
  "relativeLuminance c = 0.2126 * linearize (r c) + 0.7152 * linearize (g c) + 0.0722 * linearize (b c)"

text \<open>
  What the content script reads of the page: the location, the media query, and the
  computed background colours of \<open>document.body\<close> (absent when there is no body) and of
  the root element.
\<close>

record Location =
  hostname :: string
  host :: string

record Page =
  location :: Location
  prefersDarkMatches :: bool
  bodyBackgroundColor :: "string option"
  rootBackgroundColor :: string

text \<open>\<open>color && color.a > 0.05\<close>; a comparison with \<open>NaN\<close> is false.\<close>

definition readable :: "Rgb option \<Rightarrow> bool" where
  "readable c = (case c of None \<Rightarrow> False | Some x \<Rightarrow> (case a x of None \<Rightarrow> False | Some al \<Rightarrow> al > 0.05))"

definition getReadableBackground :: "Page \<Rightarrow> Rgb option" where
  "getReadableBackground p =
     (let bodyColor = (case bodyBackgroundColor p of None \<Rightarrow> None | Some s \<Rightarrow> parseColor s) in
      if readable bodyColor then bodyColor
      else
        let rootColor = parseColor (rootBackgroundColor p) in
        if readable rootColor then rootColor else None)"

definition computePageIsDark :: "Page \<Rightarrow> bool" where
  "computePageIsDark p =
     (let background = (case getReadableBackground p of
                          None \<Rightarrow> \<lparr>r = 255, g = 255, b = 255, a = Some 1\<rparr>
                        | Some c \<Rightarrow> c)
      in relativeLuminance background < 0.5)"

subsection \<open>A resolution pass\<close>

text \<open>\<open>location.hostname || location.host\<close>, the first line of a pass.\<close>

definition pageHostname :: "Page \<Rightarrow> string" where
  "pageHostname p = (if hostname (location p) \<noteq> [] then hostname (location p) else host (location p))"

text \<open>
  \<open>settings.siteOverrides[hostname]\<close>. The object was made with \<open>{}\<close>, so a name that is
  no own property is looked up in \<open>Object.prototype\<close>: the names below read a function
  there, and \<open>__proto__\<close> reads the prototype object itself. Any other name reads
  \<open>undefined\<close>.
\<close>

definition objectPrototypeNames :: "string list" where
  "objectPrototypeNames =
     [''constructor'', ''__defineGetter__'', ''__defineSetter__'', ''hasOwnProperty'',
      ''__lookupGetter__'', ''__lookupSetter__'', ''isPrototypeOf'', ''propertyIsEnumerable'',
      ''toString'', ''valueOf'', ''__proto__'', ''toLocaleString'']"

datatype SiteLookup = NoProperty | OwnMode ThemeMode | InheritedMember string

definition readOverride :: "(string \<times> ThemeMode) list \<Rightarrow> string \<Rightarrow> SiteLookup" where
  "readOverride overrides name =
     (case map_of overrides name of
        Some m \<Rightarrow> OwnMode m
      | None \<Rightarrow> if name \<in> set objectPrototypeNames then InheritedMember name else NoProperty)"

text \<open>
  The string of an inherited member, which \<open>setAttribute\<close> writes: \<open>[object Object]\<close> for
  the prototype object, and for a function its native source text (the spacing inside it
  is the engine's; this is the text of V8).
\<close>

definition inheritedText :: "string \<Rightarrow> string" where
  "inheritedText name =
     (if name = ''__proto__'' then ''[object Object]''
      else ''function '' @ (if name = ''constructor'' then ''Object'' else name) @ ''() { [native code] }'')"

text \<open>
  The second argument is the module variable \<open>baselineIsDark\<close>, which a pass reads and
  does not write. \<open>!siteMode\<close> holds for \<open>undefined\<close> only: a mode is a non-empty string, and
  an inherited member is a function or an object. An inherited member is neither
  \<open>'system'\<close> nor \<open>'dark'\<close>, so \<open>resolveScheme\<close> returns it as it is, \<open>shouldInvert\<close> returns
  \<open>pageIsDark\<close>, and \<open>applyTheme\<close> writes its string as the scheme.
\<close>

definition applyThemeFromSettings :: "Page \<Rightarrow> bool option \<Rightarrow> ThemeSettings \<Rightarrow> Document \<Rightarrow> Document" where
  "applyThemeFromSettings p baselineIsDark settings d =
     (let hn = pageHostname p in
      if hn = [] then clearTheme d
      else
        case readOverride (siteOverrides settings) hn of
          NoProperty \<Rightarrow> clearTheme d
        | OwnMode siteMode \<Rightarrow>
            let targetScheme = resolveScheme (prefersDarkMatches p) siteMode;
                pageIsDark = (case baselineIsDark of None \<Rightarrow> computePageIsDark p | Some dark \<Rightarrow> dark);
                invert = shouldInvert targetScheme pageIsDark
            in applyTheme targetScheme invert d
        | InheritedMember member \<Rightarrow>
            let pageIsDark = (case baselineIsDark of None \<Rightarrow> computePageIsDark p | Some dark \<Rightarrow> dark);
                invert = pageIsDark
            in setAttribute INVERT_ATTR (if invert then ''true'' else ''false'')
                 (setAttribute SCHEME_ATTR (inheritedText member) (ensureStyleElement d)))"

subsection \<open>Sequences of theme operations\<close>

text \<open>
  The two operations a pass ends in, and a document after a sequence of them; the elements
  that carry the managed id are counted by \<open>managedStyles\<close>.
\<close>

datatype ThemeOp = ApplyTheme ThemeScheme bool | ClearTheme

fun runOp :: "ThemeOp \<Rightarrow> Document \<Rightarrow> Document" where
  "runOp (ApplyTheme scheme invert) d = applyTheme scheme invert d"
| "runOp ClearTheme d = clearTheme d"

fun runOps :: "ThemeOp list \<Rightarrow> Document \<Rightarrow> Document" where
  "runOps [] d = d"
| "runOps (x # xs) d = runOps xs (runOp x d)"

definition managedStyles :: "Document \<Rightarrow> Element list" where
  "managedStyles d = filter (\<lambda>e. elementId e = STYLE_ID) (elements d)"

subsection \<open>The fallback chain of the brightness sample, as the specification words it\<close>

text \<open>
  A colour text gives a signal when it parses and its alpha is greater than 0.05. The
  chosen colour is the body's when that gives a signal, otherwise the root element's
  when that gives a signal, otherwise white.
\<close>

definition signalColor :: "string \<Rightarrow> Rgb option" where
  "signalColor s =
     (case parseColor s of
        None \<Rightarrow> None
      | Some c \<Rightarrow> (case a c of None \<Rightarrow> None | Some al \<Rightarrow> if al > 0.05 then Some c else None))"

text \<open>The texts a browser serialises a computed colour to, from the texts of its parts.\<close>

definition rgbText :: "string \<Rightarrow> string \<Rightarrow> string \<Rightarrow> string" where
  "rgbText m1 m2 m3 = ''rgb('' @ m1 @ '', '' @ m2 @ '', '' @ m3 @ '')''"

definition rgbaText :: "string \<Rightarrow> string \<Rightarrow> string \<Rightarrow> string \<Rightarrow> string" where
  "rgbaText m1 m2 m3 t = ''rgba('' @ m1 @ '', '' @ m2 @ '', '' @ m3 @ '', '' @ t @ '')''"

definition white :: Rgb where
  "white = \<lparr>r = 255, g = 255, b = 255, a = Some 1\<rparr>"

definition chosenBackground :: "Page \<Rightarrow> Rgb" where
  "chosenBackground p =
     (case (case bodyBackgroundColor p of None \<Rightarrow> None | Some s \<Rightarrow> signalColor s) of
        Some c \<Rightarrow> c
      | None \<Rightarrow> (case signalColor (rootBackgroundColor p) of Some c \<Rightarrow> c | None \<Rightarrow> white))"

section \<open>The popup\<close>

text \<open>
  The state of the popup that \<open>setMode\<close> reads and writes: the React state \<open>settings\<close> and
  \<open>activeHost\<close>, and the value last written to the store under \<open>STORAGE_KEY\<close>.
\<close>

record Popup =
  settings :: ThemeSettings
  activeHost :: "string option"
  stored :: "ThemeSettings option"

definition updateSettings :: "ThemeSettings \<Rightarrow> Popup \<Rightarrow> Popup" where
  "updateSettings next st = st\<lparr>settings := next, stored := Some next\<rparr>"

text \<open>\<open>!activeHost\<close> holds for \<open>null\<close> and for the empty string.\<close>

definition setMode :: "ThemeMode \<Rightarrow> Popup \<Rightarrow> Popup" where
  "setMode mode st =
     (case activeHost st of
        None \<Rightarrow> updateSettings ((settings st)\<lparr>defaultMode := mode\<rparr>) st
      | Some h \<Rightarrow>
          if h = [] then updateSettings ((settings st)\<lparr>defaultMode := mode\<rparr>) st
          else
            let nextOverrides = AList.update h mode (siteOverrides (settings st)) in
            updateSettings ((settings st)\<lparr>defaultMode := mode, siteOverrides := nextOverrides\<rparr>) st)"

section \<open>The invert decision\<close>

text \<open>
  Claim C1. For every resolved scheme and every page darkness, \<open>shouldInvert\<close> is true
  exactly when the scheme is dark and the page is not, or the scheme is light and the page
  is dark; the four rows of the truth table are spelled out.
\<close>

theorem shouldInvert_truth_table:
  "(shouldInvert scheme pageIsDark \<longleftrightarrow>
      (scheme = SchemeDark \<and> \<not> pageIsDark) \<or> (scheme = SchemeLight \<and> pageIsDark)) \<and>
   shouldInvert SchemeDark False = True \<and>
   shouldInvert SchemeDark True = False \<and>
   shouldInvert SchemeLight True = True \<and>
   shouldInvert SchemeLight False = False"
  by (cases scheme) (simp_all add: shouldInvert_def)

section \<open>Properties of the settings normalizer\<close>

lemma update_fresh: "k \<notin> fst ` set al \<Longrightarrow> AList.update k v al = al @ [(k, v)]"
  by (induction al) auto

lemma assignProperty_keys:
  "fst ` set (assignProperty k v al) = (if k = ''__proto__'' then fst ` set al else insert k (fst ` set al))"
  by (simp add: assignProperty_def dom_update)

lemma assignProperty_distinct:
  "distinct (map fst al) \<Longrightarrow> distinct (map fst (assignProperty k v al))"
  by (simp add: assignProperty_def distinct_update)

text \<open>
  On an object (its property names are distinct) with no property named \<open>__proto__\<close> the
  loop copies the entries that pass.
\<close>

lemma copyOverrides_filter:
  "distinct (map fst es) \<Longrightarrow> ''__proto__'' \<notin> fst ` set es \<Longrightarrow>
   fst ` set es \<inter> fst ` set acc = {} \<Longrightarrow>
   copyOverrides es acc = acc @ filter (\<lambda>(k, m). isThemeMode m) es"
proof (induction es arbitrary: acc)
  case Nil
  then show ?case by simp
next
  case (Cons e es)
  obtain k m where e: "e = (k, m)" by (cases e)
  from Cons.prems e have fresh: "k \<notin> fst ` set acc" and d: "distinct (map fst es)"
    and knew: "k \<notin> fst ` set es" and disj: "fst ` set es \<inter> fst ` set acc = {}"
    and k: "k \<noteq> ''__proto__''" and np: "''__proto__'' \<notin> fst ` set es"
    by auto
  show ?case
  proof (cases "isThemeMode m")
    case True
    have "fst ` set es \<inter> fst ` set (acc @ [(k, m)]) = {}"
      using disj knew by auto
    with Cons.IH [OF d np, of "acc @ [(k, m)]"] True fresh e k show ?thesis
      by (simp add: update_fresh assignProperty_def)
  next
    case False
    with Cons.IH [OF d np disj] e show ?thesis by simp
  qed
qed

lemma copyOverrides_distinct:
  "distinct (map fst acc) \<Longrightarrow> distinct (map fst (copyOverrides es acc))"
  by (induction es acc rule: copyOverrides.induct) (simp_all add: assignProperty_distinct)

lemma copyOverrides_own_names:
  "''__proto__'' \<notin> fst ` set acc \<Longrightarrow> ''__proto__'' \<notin> fst ` set (copyOverrides es acc)"
  by (induction es acc rule: copyOverrides.induct) (simp_all add: assignProperty_keys)

lemma update_modes:
  assumes "isThemeMode m" "list_all (\<lambda>(k, m). isThemeMode m) al"
  shows "list_all (\<lambda>(k, m). isThemeMode m) (AList.update h m al)"
  using assms(2) by (induction al) (auto simp: assms(1))

lemma copyOverrides_modes:
  "list_all (\<lambda>(k, m). isThemeMode m) acc \<Longrightarrow>
   list_all (\<lambda>(k, m). isThemeMode m) (copyOverrides es acc)"
  by (induction es acc rule: copyOverrides.induct) (simp_all add: update_modes assignProperty_def)

lemma copyOverrides_fixpoint:
  assumes "distinct (map fst es)" "''__proto__'' \<notin> fst ` set es"
    "list_all (\<lambda>(k, m). isThemeMode m) es"
  shows "copyOverrides es [] = es"
proof -
  have "filter (\<lambda>(k, m). isThemeMode m) es = es"
    using assms(3) by (simp add: list_all_iff filter_id_conv)
  with copyOverrides_filter [OF assms(1) assms(2), of "[]"] show ?thesis by simp
qed

lemma isThemeMode_system: "isThemeMode (JStr ''system'')"
  by (simp add: isThemeMode_def)

lemma isThemeMode_typed: "isThemeMode v \<Longrightarrow> \<exists>m. asThemeMode v = Some m"
  by (auto simp: isThemeMode_def)

lemma asOverrides_total:
  "list_all (\<lambda>(k, m). isThemeMode m) es \<Longrightarrow> \<exists>ms. asOverrides es = Some ms"
proof (induction es)
  case Nil
  then show ?case by simp
next
  case (Cons e es)
  obtain k v where e: "e = (k, v)" by (cases e)
  from Cons.prems e obtain m where "asThemeMode v = Some m"
    using isThemeMode_typed by auto
  moreover from Cons obtain ms where "asOverrides es = Some ms" by auto
  ultimately show ?case using e by simp
qed

lemma isThemeSettings_typed: "isThemeSettings v \<Longrightarrow> \<exists>s. asThemeSettings v = Some s"
proof -
  assume v: "isThemeSettings v"
  then obtain dm where "asThemeMode (getProp v ''defaultMode'') = Some dm"
    using isThemeMode_typed by (auto simp: isThemeSettings_def)
  moreover from v obtain so where "asOverrides (entries (getProp v ''siteOverrides'')) = Some so"
    using asOverrides_total by (auto simp: isThemeSettings_def)
  ultimately show ?thesis
    using v by (simp add: asThemeSettings_def isThemeSettings_def)
qed

text \<open>An array has no property named \<open>defaultMode\<close> or \<open>siteOverrides\<close>: its names are numerals.\<close>

lemma digitChar_digit: "d < 10 \<Longrightarrow> digitChar d \<in> set ''0123456789''"
  unfolding digitChar_def by (rule nth_mem) simp

lemma indexKey_digits: "set (indexKey n) \<subseteq> set ''0123456789''"
proof (induction n rule: indexKey.induct)
  case (1 n)
  show ?case
  proof (cases "n < 10")
    case True
    then show ?thesis using digitChar_digit [of n] by (subst indexKey.simps) simp
  next
    case False
    have "n mod 10 < 10" by simp
    then have "digitChar (n mod 10) \<in> set ''0123456789''" by (rule digitChar_digit)
    with 1 False show ?thesis by (subst indexKey.simps) simp
  qed
qed

lemma array_no_named_property:
  assumes "\<not> set k \<subseteq> set ''0123456789''" "k \<noteq> ''length''"
  shows "getProp (JArr xs) k = JUndefined"
proof -
  have "k \<notin> set (map indexKey [0..<length xs])"
    using assms(1) indexKey_digits by auto
  then have none: "map_of (zip (map indexKey [0..<length xs]) xs) k = None"
    by (simp add: map_of_zip_is_None)
  show ?thesis
    unfolding getProp.simps entries.simps none using assms(2) by simp
qed

lemma normalizeSettings_array: "normalizeSettings (JArr xs) = defaultSettings"
proof -
  have "getProp (JArr xs) ''defaultMode'' = JUndefined" "getProp (JArr xs) ''siteOverrides'' = JUndefined"
    by (rule array_no_named_property; simp)+
  then show ?thesis
    by (simp add: normalizeSettings_def defaultSettings_def isThemeMode_def)
qed

text \<open>
  Claim C2, as stated, fails in two places. An entry of \<open>siteOverrides\<close> under the key
  \<open>__proto__\<close> is not copied, though its value is a mode: the assignment reaches the
  inherited setter. And a \<open>siteOverrides\<close> that is an array, which is no key-value object,
  does not give an empty mapping: \<open>isRecord\<close> takes it for an object and its elements that
  are modes are copied under their indices.
\<close>

theorem normalizeSettings_key_counterexample:
  "normalizeSettings (JObj [(''siteOverrides'', JObj [(''__proto__'', JStr ''dark'')])]) =
     JObj [(''defaultMode'', JStr ''system''), (''siteOverrides'', JObj [])] \<and>
   normalizeSettings (JObj [(''siteOverrides'', JArr [JStr ''dark''])]) =
     JObj [(''defaultMode'', JStr ''system''), (''siteOverrides'', JObj [(''0'', JStr ''dark'')])]"
  by (simp add: normalizeSettings_def defaultSettings_def isThemeMode_def assignProperty_def
      indexKey.simps digitChar_def)

text \<open>
  Claim C2, amended. Let the property names of the input's \<open>siteOverrides\<close> be distinct, as
  the names of an object are, and none of them be \<open>__proto__\<close>. An input that is not a
  key-value object (a primitive, \<open>null\<close>, \<open>undefined\<close>, also an array) gives the default
  settings, \<open>defaultMode\<close> \<open>system\<close> and no overrides. Any object gives: as \<open>defaultMode\<close> its
  own \<open>defaultMode\<close> if that is one of \<open>light\<close>, \<open>dark\<close>, \<open>system\<close>, and \<open>system\<close> otherwise; as
  \<open>siteOverrides\<close> exactly the entries of its \<open>siteOverrides\<close> whose value is one of the three,
  in their order, when that field passes \<open>isRecord\<close> (an object, or an array, whose entries
  are its elements under their indices), and no entry when the field is absent, \<open>null\<close> or
  a primitive.
\<close>

theorem normalizeSettings_spec:
  assumes "distinct (map fst (entries (getProp v ''siteOverrides'')))"
    and "''__proto__'' \<notin> fst ` set (entries (getProp v ''siteOverrides''))"
  shows "((\<forall>kvs. v \<noteq> JObj kvs) \<longrightarrow>
            normalizeSettings v = JObj [(''defaultMode'', JStr ''system''), (''siteOverrides'', JObj [])]) \<and>
         (isRecord v \<longrightarrow>
            normalizeSettings v =
              JObj [(''defaultMode'',
                     if getProp v ''defaultMode'' \<in> {JStr ''light'', JStr ''dark'', JStr ''system''}
                     then getProp v ''defaultMode'' else JStr ''system''),
                    (''siteOverrides'',
                     JObj (if isRecord (getProp v ''siteOverrides'')
                           then filter (\<lambda>(k, m). m \<in> {JStr ''light'', JStr ''dark'', JStr ''system''})
                                  (entries (getProp v ''siteOverrides''))
                           else []))])"
proof (intro conjI impI)
  assume "\<forall>kvs. v \<noteq> JObj kvs"
  then show "normalizeSettings v = JObj [(''defaultMode'', JStr ''system''), (''siteOverrides'', JObj [])]"
    using normalizeSettings_array
    by (cases v) (simp_all add: normalizeSettings_def defaultSettings_def)
next
  assume "isRecord v"
  have f: "copyOverrides (entries (getProp v ''siteOverrides'')) [] =
        filter (\<lambda>(k, m). isThemeMode m) (entries (getProp v ''siteOverrides''))"
    using copyOverrides_filter [OF assms, of "[]"] by simp
  have m: "(\<lambda>(k::string, m). isThemeMode m) = (\<lambda>(k, m). m \<in> {JStr ''light'', JStr ''dark'', JStr ''system''})"
    by (auto simp: isThemeMode_def fun_eq_iff)
  show "normalizeSettings v =
              JObj [(''defaultMode'',
                     if getProp v ''defaultMode'' \<in> {JStr ''light'', JStr ''dark'', JStr ''system''}
                     then getProp v ''defaultMode'' else JStr ''system''),
                    (''siteOverrides'',
                     JObj (if isRecord (getProp v ''siteOverrides'')
                           then filter (\<lambda>(k, m). m \<in> {JStr ''light'', JStr ''dark'', JStr ''system''})
                                  (entries (getProp v ''siteOverrides''))
                           else []))]"
    using \<open>isRecord v\<close> unfolding normalizeSettings_def f m
    by (auto simp: defaultSettings_def isThemeMode_def)
qed

theorem normalizeSettings_spec_witness:
  "normalizeSettings (JStr ''dark'') = JObj [(''defaultMode'', JStr ''system''), (''siteOverrides'', JObj [])] \<and>
   normalizeSettings (JObj [(''defaultMode'', JStr ''dark''),
        (''siteOverrides'', JObj [(''a.org'', JStr ''light''), (''b.org'', JNum 3), (''c.org'', JStr ''system'')])]) =
     JObj [(''defaultMode'', JStr ''dark''),
           (''siteOverrides'', JObj [(''a.org'', JStr ''light''), (''c.org'', JStr ''system'')])]"
  using normalizeSettings_spec [of "JStr ''dark''"]
    normalizeSettings_spec [of "JObj [(''defaultMode'', JStr ''dark''),
        (''siteOverrides'', JObj [(''a.org'', JStr ''light''), (''b.org'', JNum 3), (''c.org'', JStr ''system'')])]"]
  by simp

text \<open>
  Claim C3. For every input, normalizing the result of \<open>normalizeSettings\<close> again gives the
  same value, and the result satisfies the invariant of \<open>ThemeSettings\<close>: its \<open>defaultMode\<close>
  is a theme mode and every value of its \<open>siteOverrides\<close> is a theme mode; so it reads as a
  typed \<open>ThemeSettings\<close> value.
\<close>

theorem normalizeSettings_idempotent_valid:
  "normalizeSettings (normalizeSettings x) = normalizeSettings x \<and>
   isThemeSettings (normalizeSettings x) \<and>
   (\<exists>s. asThemeSettings (normalizeSettings x) = Some s)"
proof -
  have valid: "isThemeSettings (normalizeSettings x)"
    by (simp add: normalizeSettings_def isThemeSettings_def defaultSettings_def
        isThemeMode_system copyOverrides_modes)
  have idem: "normalizeSettings (normalizeSettings x) = normalizeSettings x"
  proof (cases "isRecord x")
    case False
    then show ?thesis
      by (simp add: normalizeSettings_def defaultSettings_def isThemeMode_def)
  next
    case True
    define so where "so = (if isRecord (getProp x ''siteOverrides'')
               then copyOverrides (entries (getProp x ''siteOverrides'')) [] else [])"
    define dm where "dm = (if isThemeMode (getProp x ''defaultMode'') then getProp x ''defaultMode''
               else JStr ''system'')"
    have n: "normalizeSettings x = JObj [(''defaultMode'', dm), (''siteOverrides'', JObj so)]"
      using True by (simp add: normalizeSettings_def dm_def so_def defaultSettings_def)
    have dm: "isThemeMode dm" by (simp add: dm_def isThemeMode_system)
    have "distinct (map fst so)" "list_all (\<lambda>(k, m). isThemeMode m) so"
      by (simp_all add: so_def copyOverrides_distinct copyOverrides_modes)
    moreover have "''__proto__'' \<notin> fst ` set so"
      by (cases "isRecord (getProp x ''siteOverrides'')")
        (simp_all add: so_def copyOverrides_own_names)
    ultimately have "copyOverrides so [] = so" by (simp add: copyOverrides_fixpoint)
    then show ?thesis
      unfolding n using dm by (simp add: normalizeSettings_def)
  qed
  from valid idem isThemeSettings_typed [OF valid] show ?thesis by simp
qed

theorem normalizeSettings_idempotent_valid_witness:
  "normalizeSettings (normalizeSettings (JObj [(''siteOverrides'', JStr ''not-an-object'')])) =
     JObj [(''defaultMode'', JStr ''system''), (''siteOverrides'', JObj [])] \<and>
   isThemeSettings (JObj [(''defaultMode'', JStr ''system''), (''siteOverrides'', JObj [])])"
  using normalizeSettings_idempotent_valid [of "JObj [(''siteOverrides'', JStr ''not-an-object'')]"]
  by (simp add: normalizeSettings_def defaultSettings_def isThemeMode_def)

section \<open>Properties of the brightness sample\<close>

lemma linearize_zero: "linearize 0 = 0"
  by (simp add: linearize_def)

lemma linearize_255: "linearize 255 = 1"
  by (simp add: linearize_def)

text \<open>The power \<open>2.4\<close> is the fifth root of the twelfth power; this compares it with rationals.\<close>

lemma root5_power: 
  fixes x :: real
  assumes "0 < x"
  shows "(x ^ n) powr (1 / 5) = x powr (real n / 5)"
proof -
  have "(x ^ n) powr (1 / 5) = (x powr real n) powr (1 / 5)"
    using assms by (simp add: powr_realpow)
  also have "\<dots> = x powr (real n * (1 / 5))"
    by (rule powr_powr)
  finally show ?thesis by simp
qed

lemma powr_12_5_lower:
  fixes l x :: real
  assumes "0 < l" "0 < x" "l ^ 5 \<le> x ^ 12"
  shows "l \<le> x powr 2.4"
proof -
  have "(l ^ 5) powr (1 / 5) \<le> (x ^ 12) powr (1 / 5)"
    using assms by (intro powr_mono2) simp_all
  then have "l powr (real 5 / 5) \<le> x powr (real 12 / 5)"
    using assms by (simp only: root5_power)
  moreover have "(real 12 / 5) = 2.4" by simp
  ultimately show ?thesis using assms(1) by simp
qed

lemma powr_12_5_upper:
  fixes l x :: real
  assumes "0 < l" "0 < x" "x ^ 12 < l ^ 5"
  shows "x powr 2.4 < l"
proof -
  have "(x ^ 12) powr (1 / 5) < (l ^ 5) powr (1 / 5)"
    using assms by (intro powr_less_mono2) simp_all
  then have "x powr (real 12 / 5) < l powr (real 5 / 5)"
    using assms by (simp only: root5_power)
  moreover have "(real 12 / 5) = 2.4" by simp
  ultimately show ?thesis using assms(1) by simp
qed

lemma linearize_linear: "x / 255 \<le> 0.03928 \<Longrightarrow> linearize x = x / 255 / 12.92"
  by (simp add: linearize_def)

lemma linearize_power: "\<not> x / 255 \<le> 0.03928 \<Longrightarrow> linearize x = ((x / 255 + 0.055) / 1.055) powr 2.4"
  by (simp add: linearize_def)

text \<open>An integer channel is on the linear branch exactly up to 10.\<close>

lemma threshold_nat: "real n / 255 \<le> 0.03928 \<longleftrightarrow> n \<le> 10"
proof
  assume "real n / 255 \<le> 0.03928"
  then have "real n < 11" by simp
  then show "n \<le> 10" by simp
next
  assume "n \<le> 10"
  then have "real n \<le> 10" by simp
  then show "real n / 255 \<le> 0.03928" by simp
qed

lemma linearize_10_11: "linearize 10 \<le> linearize 11"
proof -
  have "(10 / 255 / 12.92 :: real) \<le> ((11 / 255 + 0.055) / 1.055) powr 2.4"
    by (rule powr_12_5_lower) (simp_all add: power_divide divide_simps)
  then show ?thesis by (simp add: linearize_def)
qed

lemma linearize_mono_power:
  assumes "\<not> x / 255 \<le> 0.03928" "x \<le> y"
  shows "linearize x \<le> linearize y"
proof -
  have y: "\<not> y / 255 \<le> 0.03928" using assms by simp
  show ?thesis
    unfolding linearize_power [OF assms(1)] linearize_power [OF y]
    using assms by (intro powr_mono2) simp_all
qed

lemma linearize_mono_linear:
  assumes "y / 255 \<le> 0.03928" "x \<le> y"
  shows "linearize x \<le> linearize y"
proof -
  have x: "x / 255 \<le> 0.03928" using assms by simp
  show ?thesis using assms x by (simp add: linearize_linear)
qed

lemma linearize_mono_nat:
  assumes "m \<le> n"
  shows "linearize (real m) \<le> linearize (real n)"
proof (cases "n \<le> 10")
  case True
  then show ?thesis using assms by (intro linearize_mono_linear) (simp_all add: threshold_nat)
next
  case n: False
  show ?thesis
  proof (cases "m \<le> 10")
    case False
    then show ?thesis using assms by (intro linearize_mono_power) (simp_all add: threshold_nat)
  next
    case True
    have "linearize (real m) \<le> linearize (real 10)"
      using True by (intro linearize_mono_linear) simp_all
    also have "\<dots> \<le> linearize (real 11)" using linearize_10_11 by simp
    also have "\<dots> \<le> linearize (real n)"
      using n by (intro linearize_mono_power) simp_all
    finally show ?thesis .
  qed
qed

lemma linearize_bounds:
  assumes "0 \<le> x" "x \<le> 255"
  shows "0 \<le> linearize x" "linearize x \<le> 1"
proof -
  show "0 \<le> linearize x" using assms by (simp add: linearize_def Let_def)
  show "linearize x \<le> 1"
  proof (cases "x / 255 \<le> 0.03928")
    case True
    then show ?thesis by (simp add: linearize_def)
  next
    case False
    have "((x / 255 + 0.055) / 1.055) powr 2.4 \<le> 1 powr 2.4"
      using assms by (intro powr_mono2) simp_all
    then show ?thesis using False by (simp add: linearize_def)
  qed
qed

lemma linearize_above:
  assumes "255 < x"
  shows "1 < linearize x"
proof -
  have "1 < (x / 255 + 0.055) / 1.055" using assms by simp
  then have "1 < ((x / 255 + 0.055) / 1.055) powr 2.4"
    by (rule gr_one_powr) simp
  moreover have "\<not> x / 255 \<le> 0.03928" using assms by simp
  ultimately show ?thesis by (simp add: linearize_def)
qed

text \<open>
  Between the integer channels 10 and 11 the function steps down where the branches meet
  (\<open>0.03928 * 255 = 10.0164\<close>); the channels \<open>parseColor\<close> yields are integers, and
  on them it is monotone.
\<close>

lemma linearize_drop: "linearize 10.017 < linearize 10.0164"
proof -
  have "((10.017 / 255 + 0.055) / 1.055) powr 2.4 < (10.0164 / 255 / 12.92 :: real)"
    by (rule powr_12_5_upper) (simp_all add: power_divide divide_simps)
  then show ?thesis by (simp add: linearize_def)
qed


lemma relativeLuminance_black: "relativeLuminance \<lparr>r = 0, g = 0, b = 0, a = al\<rparr> = 0"
  by (simp add: relativeLuminance_def linearize_zero)

lemma relativeLuminance_white: "relativeLuminance \<lparr>r = 255, g = 255, b = 255, a = al\<rparr> = 1"
  by (simp add: relativeLuminance_def linearize_255)

text \<open>
  Claim C6. For RGB triples with (integer) channels in \<open>0..255\<close>, \<open>relativeLuminance\<close> does
  not decrease when one channel grows and the other two stay, for each of the three
  channels; it is \<open>0\<close> at \<open>(0,0,0)\<close> and \<open>1\<close> at \<open>(255,255,255)\<close>.
\<close>

theorem relativeLuminance_monotone:
  assumes "m \<le> n" "n \<le> 255"
  shows "relativeLuminance (c\<lparr>r := real m\<rparr>) \<le> relativeLuminance (c\<lparr>r := real n\<rparr>) \<and>
         relativeLuminance (c\<lparr>g := real m\<rparr>) \<le> relativeLuminance (c\<lparr>g := real n\<rparr>) \<and>
         relativeLuminance (c\<lparr>b := real m\<rparr>) \<le> relativeLuminance (c\<lparr>b := real n\<rparr>) \<and>
         relativeLuminance \<lparr>r = 0, g = 0, b = 0, a = al\<rparr> = 0 \<and>
         relativeLuminance \<lparr>r = 255, g = 255, b = 255, a = al\<rparr> = 1"
proof -
  have "linearize (real m) \<le> linearize (real n)"
    using assms(1) by (rule linearize_mono_nat)
  then show ?thesis
    by (simp add: relativeLuminance_def linearize_zero linearize_255)
qed

theorem relativeLuminance_monotone_witness:
  "(10::nat) \<le> 11 \<and> (11::nat) \<le> 255 \<and>
   relativeLuminance \<lparr>r = 10, g = 20, b = 30, a = Some 1\<rparr> \<le> relativeLuminance \<lparr>r = 11, g = 20, b = 30, a = Some 1\<rparr> \<and>
   relativeLuminance \<lparr>r = 20, g = 10, b = 30, a = Some 1\<rparr> \<le> relativeLuminance \<lparr>r = 20, g = 11, b = 30, a = Some 1\<rparr>"
  using relativeLuminance_monotone [of 10 11 "\<lparr>r = 10, g = 20, b = 30, a = Some 1\<rparr>"]
    relativeLuminance_monotone [of 10 11 "\<lparr>r = 20, g = 10, b = 30, a = Some 1\<rparr>"]
  by simp

lemma parseColor_300:
  "parseColor ''rgb(300,300,300)'' = Some \<lparr>r = 300, g = 300, b = 300, a = Some 1\<rparr>"
  by (simp add: parseColor_def matchColor_def many1_def isDigit_def isWhitespace_def decimal_def)

text \<open>
  Claim C9. \<open>parseColor\<close> does not check the range of a channel: \<open>rgb(300,300,300)\<close> parses
  to a colour with channels \<open>300\<close>, whose relative luminance exceeds \<open>1\<close>; every colour
  with all channels above \<open>255\<close> has a luminance above \<open>1\<close>, while channels within
  \<open>0..255\<close> keep the luminance between \<open>0\<close> and \<open>1\<close>.
\<close>

theorem parseColor_no_range_check:
  "parseColor ''rgb(300,300,300)'' = Some \<lparr>r = 300, g = 300, b = 300, a = Some 1\<rparr> \<and>
   1 < relativeLuminance \<lparr>r = 300, g = 300, b = 300, a = Some 1\<rparr> \<and>
   (\<forall>c. 255 < r c \<and> 255 < g c \<and> 255 < b c \<longrightarrow> 1 < relativeLuminance c) \<and>
   (\<forall>c. 0 \<le> r c \<and> r c \<le> 255 \<and> 0 \<le> g c \<and> g c \<le> 255 \<and> 0 \<le> b c \<and> b c \<le> 255 \<longrightarrow>
        0 \<le> relativeLuminance c \<and> relativeLuminance c \<le> 1)"
proof -
  have above: "1 < relativeLuminance c" if "255 < r c" "255 < g c" "255 < b c" for c
  proof -
    from that have "1 < linearize (r c)" "1 < linearize (g c)" "1 < linearize (b c)"
      by (simp_all add: linearize_above)
    then show ?thesis by (simp add: relativeLuminance_def)
  qed
  have within: "0 \<le> relativeLuminance c \<and> relativeLuminance c \<le> 1"
    if "0 \<le> r c" "r c \<le> 255" "0 \<le> g c" "g c \<le> 255" "0 \<le> b c" "b c \<le> 255" for c
  proof -
    from that have "0 \<le> linearize (r c)" "linearize (r c) \<le> 1" "0 \<le> linearize (g c)"
      "linearize (g c) \<le> 1" "0 \<le> linearize (b c)" "linearize (b c) \<le> 1"
      by (simp_all add: linearize_bounds)
    then show ?thesis by (simp add: relativeLuminance_def)
  qed
  have "1 < relativeLuminance \<lparr>r = 300, g = 300, b = 300, a = Some 1\<rparr>"
    by (rule above) simp_all
  with above within parseColor_300 show ?thesis by blast
qed

theorem parseColor_no_range_check_witness:
  "1 < relativeLuminance \<lparr>r = 256, g = 256, b = 256, a = Some 1\<rparr> \<and>
   0 \<le> relativeLuminance \<lparr>r = 128, g = 0, b = 255, a = Some 1\<rparr> \<and>
   relativeLuminance \<lparr>r = 128, g = 0, b = 255, a = Some 1\<rparr> \<le> 1"
proof -
  have "(\<forall>c. 255 < r c \<and> 255 < g c \<and> 255 < b c \<longrightarrow> 1 < relativeLuminance c) \<and>
   (\<forall>c. 0 \<le> r c \<and> r c \<le> 255 \<and> 0 \<le> g c \<and> g c \<le> 255 \<and> 0 \<le> b c \<and> b c \<le> 255 \<longrightarrow>
        0 \<le> relativeLuminance c \<and> relativeLuminance c \<le> 1)"
    using parseColor_no_range_check by simp
  then have "(255 < r \<lparr>r = 256, g = 256, b = 256, a = Some 1\<rparr> \<and> 255 < g \<lparr>r = 256, g = 256, b = 256, a = Some 1\<rparr>
        \<and> 255 < b \<lparr>r = 256, g = 256, b = 256, a = Some 1\<rparr> \<longrightarrow> 1 < relativeLuminance \<lparr>r = 256, g = 256, b = 256, a = Some 1\<rparr>)"
    and "(0 \<le> r \<lparr>r = 128, g = 0, b = 255, a = Some 1\<rparr> \<and> r \<lparr>r = 128, g = 0, b = 255, a = Some 1\<rparr> \<le> 255
        \<and> 0 \<le> g \<lparr>r = 128, g = 0, b = 255, a = Some 1\<rparr> \<and> g \<lparr>r = 128, g = 0, b = 255, a = Some 1\<rparr> \<le> 255
        \<and> 0 \<le> b \<lparr>r = 128, g = 0, b = 255, a = Some 1\<rparr> \<and> b \<lparr>r = 128, g = 0, b = 255, a = Some 1\<rparr> \<le> 255
        \<longrightarrow> 0 \<le> relativeLuminance \<lparr>r = 128, g = 0, b = 255, a = Some 1\<rparr> \<and> relativeLuminance \<lparr>r = 128, g = 0, b = 255, a = Some 1\<rparr> \<le> 1)"
    by blast+
  then show ?thesis by simp
qed

lemma signalColor_readable:
  "signalColor s = (if readable (parseColor s) then parseColor s else None)"
  by (simp add: signalColor_def readable_def split: option.splits)

lemma white_not_dark: "\<not> relativeLuminance white < 0.5"
  by (simp add: white_def relativeLuminance_white)

text \<open>
  What \<open>parseColor\<close> makes of the texts a browser serialises colours to: the channels
  are the numbers the digits denote, and the alpha is \<open>1\<close> or the number of the alpha text.
\<close>

lemma digit_not_whitespace: "isDigit c \<Longrightarrow> \<not> isWhitespace c"
  by (auto simp: isDigit_def isWhitespace_def)

lemma filter_digits: "list_all isDigit m \<Longrightarrow> filter (\<lambda>c. \<not> isWhitespace c) m = m"
  by (induction m) (simp_all add: digit_not_whitespace)

lemma whitespace_chars:
  "isWhitespace (CHR '' '')" "\<not> isWhitespace (CHR ''r'')" "\<not> isWhitespace (CHR ''g'')"
  "\<not> isWhitespace (CHR ''b'')" "\<not> isWhitespace (CHR ''a'')" "\<not> isWhitespace (CHR ''('')"
  "\<not> isWhitespace (CHR '')'')" "\<not> isWhitespace (CHR '','')" "\<not> isWhitespace (CHR ''.'')"
  by (simp_all add: isWhitespace_def)

lemma filter_alpha:
  "list_all (\<lambda>c. isDigit c \<or> c = CHR ''.'') t \<Longrightarrow> filter (\<lambda>c. \<not> isWhitespace c) t = t"
  by (induction t) (auto simp: digit_not_whitespace whitespace_chars)

lemma many1_stop:
  assumes "list_all p m" "m \<noteq> []" "\<not> p c"
  shows "many1 p (m @ c # rest) = Some (m, c # rest)"
proof -
  have all: "\<And>x. x \<in> set m \<Longrightarrow> p x" using assms(1) by (simp add: list_all_iff)
  have "takeWhile p (m @ c # rest) = m"
    using all assms(3) by (simp add: takeWhile_append2)
  moreover have "dropWhile p (m @ c # rest) = c # rest"
    using all assms(3) by (simp add: dropWhile_append2)
  ultimately show ?thesis using assms(2) by (simp add: many1_def)
qed

lemma not_digit_punct: "\<not> isDigit (CHR '','')" "\<not> isDigit (CHR '')'')" "\<not> isDigit (CHR ''.'')"
  by (simp_all add: isDigit_def)

lemma matchColor_rgb:
  assumes "list_all isDigit m1" "m1 \<noteq> []" "list_all isDigit m2" "m2 \<noteq> []"
    "list_all isDigit m3" "m3 \<noteq> []"
  shows "matchColor (''rgb('' @ m1 @ '','' @ m2 @ '','' @ m3 @ '')'') = Some (m1, m2, m3, None)"
  using assms by (simp add: matchColor_def many1_stop not_digit_punct)

lemma matchColor_rgba:
  assumes "list_all isDigit m1" "m1 \<noteq> []" "list_all isDigit m2" "m2 \<noteq> []"
    "list_all isDigit m3" "m3 \<noteq> []" "list_all (\<lambda>c. isDigit c \<or> c = CHR ''.'') t" "t \<noteq> []"
  shows "matchColor (''rgba('' @ m1 @ '','' @ m2 @ '','' @ m3 @ '','' @ t @ '')'') = Some (m1, m2, m3, Some t)"
proof -
  have "many1 (\<lambda>c. isDigit c \<or> c = CHR ''.'') (t @ '')'') = Some (t, '')'')"
    using assms(7,8) by (intro many1_stop) (simp_all add: not_digit_punct)
  moreover have "'','' @ t @ '')'' \<noteq> '')''" by simp
  ultimately show ?thesis
    using assms by (simp add: matchColor_def many1_stop not_digit_punct)
qed

lemma parseColor_rgbText:
  assumes "list_all isDigit m1" "m1 \<noteq> []" "list_all isDigit m2" "m2 \<noteq> []"
    "list_all isDigit m3" "m3 \<noteq> []"
  shows "parseColor (rgbText m1 m2 m3) =
     Some \<lparr>r = real (decimal m1), g = real (decimal m2), b = real (decimal m3), a = Some 1\<rparr>"
proof -
  have "filter (\<lambda>c. \<not> isWhitespace c) (rgbText m1 m2 m3) = ''rgb('' @ m1 @ '','' @ m2 @ '','' @ m3 @ '')''"
    using assms by (simp add: rgbText_def filter_digits whitespace_chars)
  then show ?thesis
    using matchColor_rgb [OF assms] by (simp add: parseColor_def)
qed

lemma numberOfAlpha_fraction:
  assumes "list_all isDigit ip" "list_all isDigit fp" "ip \<noteq> [] \<or> fp \<noteq> []"
  shows "numberOfAlpha (ip @ ''.'' @ fp) = Some (real (decimal ip) + real (decimal fp) / 10 ^ length fp)"
proof -
  have all: "\<And>x. x \<in> set ip \<Longrightarrow> isDigit x" using assms(1) by (simp add: list_all_iff)
  have "takeWhile isDigit (ip @ CHR ''.'' # fp) = ip"
    using all by (simp add: takeWhile_append2 not_digit_punct)
  moreover have "dropWhile isDigit (ip @ CHR ''.'' # fp) = CHR ''.'' # fp"
    using all by (simp add: dropWhile_append2 not_digit_punct)
  ultimately show ?thesis
    using assms by (simp add: numberOfAlpha_def Let_def)
qed

lemma parseColor_rgbaText:
  assumes "list_all isDigit m1" "m1 \<noteq> []" "list_all isDigit m2" "m2 \<noteq> []"
    "list_all isDigit m3" "m3 \<noteq> []" "list_all isDigit ip" "list_all isDigit fp" "ip \<noteq> [] \<or> fp \<noteq> []"
  shows "parseColor (rgbaText m1 m2 m3 (ip @ ''.'' @ fp)) =
     Some \<lparr>r = real (decimal m1), g = real (decimal m2), b = real (decimal m3),
           a = Some (real (decimal ip) + real (decimal fp) / 10 ^ length fp)\<rparr>"
proof -
  let ?t = "ip @ ''.'' @ fp"
  have t: "list_all (\<lambda>c. isDigit c \<or> c = CHR ''.'') ?t" "?t \<noteq> []"
    using assms(7,8) by (auto simp: list_all_iff)
  have "filter (\<lambda>c. \<not> isWhitespace c) (rgbaText m1 m2 m3 ?t) =
      ''rgba('' @ m1 @ '','' @ m2 @ '','' @ m3 @ '','' @ ?t @ '')''"
    using assms by (simp add: rgbaText_def filter_digits whitespace_chars)
  then show ?thesis
    using matchColor_rgba [OF assms(1-6) t] numberOfAlpha_fraction [OF assms(7-9)]
    by (simp add: parseColor_def)
qed


lemma chain_spec: "computePageIsDark p \<longleftrightarrow> relativeLuminance (chosenBackground p) < 0.5"
  by (cases "bodyBackgroundColor p")
    (simp_all add: computePageIsDark_def getReadableBackground_def chosenBackground_def
      signalColor_readable white_def Let_def readable_def split: option.splits)

lemma signal_rgbText:
  "list_all isDigit m1 \<and> m1 \<noteq> [] \<and> list_all isDigit m2 \<and> m2 \<noteq> [] \<and> list_all isDigit m3 \<and> m3 \<noteq> [] \<longrightarrow>
   signalColor (rgbText m1 m2 m3) =
     Some \<lparr>r = real (decimal m1), g = real (decimal m2), b = real (decimal m3), a = Some 1\<rparr>"
  by (simp add: signalColor_def parseColor_rgbText)

lemma signal_rgbaText:
  "list_all isDigit m1 \<and> m1 \<noteq> [] \<and> list_all isDigit m2 \<and> m2 \<noteq> [] \<and> list_all isDigit m3 \<and> m3 \<noteq> [] \<and>
   list_all isDigit ip \<and> ip \<noteq> [] \<and> list_all isDigit fp \<and> fp \<noteq> [] \<longrightarrow>
   signalColor (rgbaText m1 m2 m3 (ip @ ''.'' @ fp)) =
     (if 0.05 < real (decimal ip) + real (decimal fp) / 10 ^ length fp
      then Some \<lparr>r = real (decimal m1), g = real (decimal m2), b = real (decimal m3),
                 a = Some (real (decimal ip) + real (decimal fp) / 10 ^ length fp)\<rparr>
      else None)"
proof (intro impI)
  assume "list_all isDigit m1 \<and> m1 \<noteq> [] \<and> list_all isDigit m2 \<and> m2 \<noteq> [] \<and> list_all isDigit m3 \<and> m3 \<noteq> [] \<and>
   list_all isDigit ip \<and> ip \<noteq> [] \<and> list_all isDigit fp \<and> fp \<noteq> []"
  then have parse: "parseColor (rgbaText m1 m2 m3 (ip @ ''.'' @ fp)) =
     Some \<lparr>r = real (decimal m1), g = real (decimal m2), b = real (decimal m3),
           a = Some (real (decimal ip) + real (decimal fp) / 10 ^ length fp)\<rparr>"
    by (intro parseColor_rgbaText) simp_all
  show "signalColor (rgbaText m1 m2 m3 (ip @ ''.'' @ fp)) =
     (if 0.05 < real (decimal ip) + real (decimal fp) / 10 ^ length fp
      then Some \<lparr>r = real (decimal m1), g = real (decimal m2), b = real (decimal m3),
                 a = Some (real (decimal ip) + real (decimal fp) / 10 ^ length fp)\<rparr>
      else None)"
    unfolding signalColor_def parse by simp
qed

lemma body_used:
  "list_all isDigit m1 \<and> m1 \<noteq> [] \<and> list_all isDigit m2 \<and> m2 \<noteq> [] \<and> list_all isDigit m3 \<and> m3 \<noteq> [] \<and>
   bodyBackgroundColor p = Some (rgbText m1 m2 m3) \<longrightarrow>
   (computePageIsDark p \<longleftrightarrow>
      relativeLuminance \<lparr>r = real (decimal m1), g = real (decimal m2), b = real (decimal m3), a = Some 1\<rparr> < 0.5)"
  using signal_rgbText [of m1 m2 m3] by (simp add: chain_spec chosenBackground_def)

lemma body_alpha_used:
  "list_all isDigit m1 \<and> m1 \<noteq> [] \<and> list_all isDigit m2 \<and> m2 \<noteq> [] \<and> list_all isDigit m3 \<and> m3 \<noteq> [] \<and>
   list_all isDigit ip \<and> ip \<noteq> [] \<and> list_all isDigit fp \<and> fp \<noteq> [] \<and>
   0.05 < real (decimal ip) + real (decimal fp) / 10 ^ length fp \<and>
   bodyBackgroundColor p = Some (rgbaText m1 m2 m3 (ip @ ''.'' @ fp)) \<longrightarrow>
   (computePageIsDark p \<longleftrightarrow>
      relativeLuminance \<lparr>r = real (decimal m1), g = real (decimal m2), b = real (decimal m3),
        a = Some (real (decimal ip) + real (decimal fp) / 10 ^ length fp)\<rparr> < 0.5)"
  using signal_rgbaText [of m1 m2 m3 ip fp] by (simp add: chain_spec chosenBackground_def)

lemma root_used:
  "list_all isDigit m1 \<and> m1 \<noteq> [] \<and> list_all isDigit m2 \<and> m2 \<noteq> [] \<and> list_all isDigit m3 \<and> m3 \<noteq> [] \<and>
   (case bodyBackgroundColor p of None \<Rightarrow> None | Some s \<Rightarrow> signalColor s) = None \<and>
   rootBackgroundColor p = rgbText m1 m2 m3 \<longrightarrow>
   (computePageIsDark p \<longleftrightarrow>
      relativeLuminance \<lparr>r = real (decimal m1), g = real (decimal m2), b = real (decimal m3), a = Some 1\<rparr> < 0.5)"
  using signal_rgbText [of m1 m2 m3] by (simp add: chain_spec chosenBackground_def)

lemma white_assumed:
  "(case bodyBackgroundColor p of None \<Rightarrow> None | Some s \<Rightarrow> signalColor s) = None \<and>
      signalColor (rootBackgroundColor p) = None \<longrightarrow> \<not> computePageIsDark p"
  using white_not_dark by (simp add: chain_spec chosenBackground_def)

lemma no_signal_instances:
  "signalColor ''white'' = None" "signalColor ''hsl(0, 0%, 0%)'' = None"
  "signalColor ''transparent'' = None" "signalColor ''rgba(0, 0, 0, 0.05)'' = None"
  "signalColor ''rgba(0, 0, 0, 0)'' = None"
  by (simp_all add: signalColor_def parseColor_def matchColor_def many1_def isDigit_def
      isWhitespace_def decimal_def numberOfAlpha_def)

lemma signal_instances:
  "signalColor ''rgba(0, 0, 0, 0.9)'' = Some \<lparr>r = 0, g = 0, b = 0, a = Some 0.9\<rparr>"
  "signalColor ''rgba(0, 0, 0, 0.06)'' = Some \<lparr>r = 0, g = 0, b = 0, a = Some 0.06\<rparr>"
  "signalColor ''rgb(255, 255, 255)'' = Some \<lparr>r = 255, g = 255, b = 255, a = Some 1\<rparr>"
  "signalColor ''rgb(0, 0, 0)'' = Some \<lparr>r = 0, g = 0, b = 0, a = Some 1\<rparr>"
  by (simp_all add: signalColor_def parseColor_def matchColor_def many1_def isDigit_def
      isWhitespace_def decimal_def numberOfAlpha_def)

lemma page_body_black: "bodyBackgroundColor p = Some ''rgba(0, 0, 0, 0.9)'' \<longrightarrow> computePageIsDark p"
  by (simp add: chain_spec chosenBackground_def signal_instances relativeLuminance_black)

lemma page_body_faint: "bodyBackgroundColor p = Some ''rgba(0, 0, 0, 0.06)'' \<longrightarrow> computePageIsDark p"
  by (simp add: chain_spec chosenBackground_def signal_instances relativeLuminance_black)

lemma page_body_white: "bodyBackgroundColor p = Some ''rgb(255, 255, 255)'' \<longrightarrow> \<not> computePageIsDark p"
  by (simp add: chain_spec chosenBackground_def signal_instances relativeLuminance_white)

lemma page_root_black:
  "bodyBackgroundColor p = Some ''rgba(0, 0, 0, 0)'' \<and> rootBackgroundColor p = ''rgb(0, 0, 0)'' \<longrightarrow>
   computePageIsDark p"
  by (simp add: chain_spec chosenBackground_def signal_instances no_signal_instances
      relativeLuminance_black)

lemma page_no_body:
  "bodyBackgroundColor p = None \<and> rootBackgroundColor p = ''rgba(0, 0, 0, 0.05)'' \<longrightarrow>
   \<not> computePageIsDark p"
  using white_not_dark by (simp add: chain_spec chosenBackground_def no_signal_instances)

text \<open>
  Claim C5. \<open>computePageIsDark\<close> holds exactly when the relative luminance of the chosen
  background is below \<open>0.5\<close>, where the chosen background follows the fallback chain: the
  body's colour when it parses with alpha above \<open>0.05\<close>, otherwise the root element's under
  the same condition, otherwise white. On the texts of colours this says: \<open>rgb(R, G, B)\<close>
  gives the signal \<open>(R, G, B)\<close> with alpha \<open>1\<close>, and \<open>rgba(R, G, B, I.F)\<close> gives a signal exactly
  when \<open>I.F\<close> is above \<open>0.05\<close>; a body with such a colour decides the result whatever the root
  is; the root decides when the body gives no signal; with no signal from either the page
  is not dark. A named colour, \<open>hsl()\<close> and an alpha of \<open>0\<close> or \<open>0.05\<close> give no signal, an alpha
  of \<open>0.06\<close> or \<open>0.9\<close> gives one, and the pages listed come out as the chain says.
\<close>

theorem computePageIsDark_fallback:
  "(computePageIsDark p \<longleftrightarrow> relativeLuminance (chosenBackground p) < 0.5) \<and>
   (list_all isDigit m1 \<and> m1 \<noteq> [] \<and> list_all isDigit m2 \<and> m2 \<noteq> [] \<and> list_all isDigit m3 \<and> m3 \<noteq> [] \<longrightarrow>
    signalColor (rgbText m1 m2 m3) =
      Some \<lparr>r = real (decimal m1), g = real (decimal m2), b = real (decimal m3), a = Some 1\<rparr>) \<and>
   (list_all isDigit m1 \<and> m1 \<noteq> [] \<and> list_all isDigit m2 \<and> m2 \<noteq> [] \<and> list_all isDigit m3 \<and> m3 \<noteq> [] \<and>
    list_all isDigit ip \<and> ip \<noteq> [] \<and> list_all isDigit fp \<and> fp \<noteq> [] \<longrightarrow>
    signalColor (rgbaText m1 m2 m3 (ip @ ''.'' @ fp)) =
      (if 0.05 < real (decimal ip) + real (decimal fp) / 10 ^ length fp
       then Some \<lparr>r = real (decimal m1), g = real (decimal m2), b = real (decimal m3),
                  a = Some (real (decimal ip) + real (decimal fp) / 10 ^ length fp)\<rparr>
       else None)) \<and>
   (list_all isDigit m1 \<and> m1 \<noteq> [] \<and> list_all isDigit m2 \<and> m2 \<noteq> [] \<and> list_all isDigit m3 \<and> m3 \<noteq> [] \<and>
    bodyBackgroundColor p = Some (rgbText m1 m2 m3) \<longrightarrow>
    (computePageIsDark p \<longleftrightarrow>
       relativeLuminance \<lparr>r = real (decimal m1), g = real (decimal m2), b = real (decimal m3), a = Some 1\<rparr> < 0.5)) \<and>
   (list_all isDigit m1 \<and> m1 \<noteq> [] \<and> list_all isDigit m2 \<and> m2 \<noteq> [] \<and> list_all isDigit m3 \<and> m3 \<noteq> [] \<and>
    list_all isDigit ip \<and> ip \<noteq> [] \<and> list_all isDigit fp \<and> fp \<noteq> [] \<and>
    0.05 < real (decimal ip) + real (decimal fp) / 10 ^ length fp \<and>
    bodyBackgroundColor p = Some (rgbaText m1 m2 m3 (ip @ ''.'' @ fp)) \<longrightarrow>
    (computePageIsDark p \<longleftrightarrow>
       relativeLuminance \<lparr>r = real (decimal m1), g = real (decimal m2), b = real (decimal m3),
         a = Some (real (decimal ip) + real (decimal fp) / 10 ^ length fp)\<rparr> < 0.5)) \<and>
   (list_all isDigit m1 \<and> m1 \<noteq> [] \<and> list_all isDigit m2 \<and> m2 \<noteq> [] \<and> list_all isDigit m3 \<and> m3 \<noteq> [] \<and>
    (case bodyBackgroundColor p of None \<Rightarrow> None | Some s \<Rightarrow> signalColor s) = None \<and>
    rootBackgroundColor p = rgbText m1 m2 m3 \<longrightarrow>
    (computePageIsDark p \<longleftrightarrow>
       relativeLuminance \<lparr>r = real (decimal m1), g = real (decimal m2), b = real (decimal m3), a = Some 1\<rparr> < 0.5)) \<and>
   ((case bodyBackgroundColor p of None \<Rightarrow> None | Some s \<Rightarrow> signalColor s) = None \<and>
      signalColor (rootBackgroundColor p) = None \<longrightarrow> \<not> computePageIsDark p) \<and>
   signalColor ''white'' = None \<and> signalColor ''hsl(0, 0%, 0%)'' = None \<and>
   signalColor ''transparent'' = None \<and> signalColor ''rgba(0, 0, 0, 0.05)'' = None \<and>
   signalColor ''rgba(0, 0, 0, 0)'' = None \<and>
   signalColor ''rgba(0, 0, 0, 0.9)'' = Some \<lparr>r = 0, g = 0, b = 0, a = Some 0.9\<rparr> \<and>
   signalColor ''rgba(0, 0, 0, 0.06)'' = Some \<lparr>r = 0, g = 0, b = 0, a = Some 0.06\<rparr> \<and>
   (bodyBackgroundColor p = Some ''rgba(0, 0, 0, 0.9)'' \<longrightarrow> computePageIsDark p) \<and>
   (bodyBackgroundColor p = Some ''rgba(0, 0, 0, 0.06)'' \<longrightarrow> computePageIsDark p) \<and>
   (bodyBackgroundColor p = Some ''rgb(255, 255, 255)'' \<longrightarrow> \<not> computePageIsDark p) \<and>
   (bodyBackgroundColor p = Some ''rgba(0, 0, 0, 0)'' \<and> rootBackgroundColor p = ''rgb(0, 0, 0)'' \<longrightarrow>
      computePageIsDark p) \<and>
   (bodyBackgroundColor p = None \<and> rootBackgroundColor p = ''rgba(0, 0, 0, 0.05)'' \<longrightarrow>
      \<not> computePageIsDark p)"
  by (intro conjI chain_spec signal_rgbText signal_rgbaText body_used body_alpha_used root_used
      white_assumed no_signal_instances signal_instances page_body_black page_body_faint
      page_body_white page_root_black page_no_body)

theorem computePageIsDark_fallback_witness:
  "signalColor ''rgb(12, 34, 56)'' = Some \<lparr>r = 12, g = 34, b = 56, a = Some 1\<rparr> \<and>
   signalColor ''rgba(12, 34, 56, 0.5)'' = Some \<lparr>r = 12, g = 34, b = 56, a = Some 0.5\<rparr> \<and>
   signalColor ''rgba(12, 34, 56, 0.04)'' = None \<and>
   computePageIsDark \<lparr>location = \<lparr>hostname = ''example.com'', host = ''example.com''\<rparr>,
      prefersDarkMatches = False, bodyBackgroundColor = Some ''rgba(0, 0, 0, 0.9)'',
      rootBackgroundColor = ''rgb(255, 255, 255)''\<rparr> \<and>
   \<not> computePageIsDark \<lparr>location = \<lparr>hostname = ''example.com'', host = ''example.com''\<rparr>,
      prefersDarkMatches = False, bodyBackgroundColor = Some ''rgb(255, 255, 255)'',
      rootBackgroundColor = ''rgb(0, 0, 0)''\<rparr> \<and>
   computePageIsDark \<lparr>location = \<lparr>hostname = ''example.com'', host = ''example.com''\<rparr>,
      prefersDarkMatches = False, bodyBackgroundColor = Some ''rgba(0, 0, 0, 0)'',
      rootBackgroundColor = ''rgb(0, 0, 0)''\<rparr> \<and>
   \<not> computePageIsDark \<lparr>location = \<lparr>hostname = ''example.com'', host = ''example.com''\<rparr>,
      prefersDarkMatches = False, bodyBackgroundColor = Some ''white'',
      rootBackgroundColor = ''hsl(0, 0%, 0%)''\<rparr>"
proof -
  let ?p1 = "\<lparr>location = \<lparr>hostname = ''example.com'', host = ''example.com''\<rparr>,
      prefersDarkMatches = False, bodyBackgroundColor = Some ''rgba(0, 0, 0, 0.9)'',
      rootBackgroundColor = ''rgb(255, 255, 255)''\<rparr>"
  let ?p2 = "\<lparr>location = \<lparr>hostname = ''example.com'', host = ''example.com''\<rparr>,
      prefersDarkMatches = False, bodyBackgroundColor = Some ''rgb(255, 255, 255)'',
      rootBackgroundColor = ''rgb(0, 0, 0)''\<rparr>"
  let ?p3 = "\<lparr>location = \<lparr>hostname = ''example.com'', host = ''example.com''\<rparr>,
      prefersDarkMatches = False, bodyBackgroundColor = Some ''rgba(0, 0, 0, 0)'',
      rootBackgroundColor = ''rgb(0, 0, 0)''\<rparr>"
  let ?p4 = "\<lparr>location = \<lparr>hostname = ''example.com'', host = ''example.com''\<rparr>,
      prefersDarkMatches = False, bodyBackgroundColor = Some ''white'',
      rootBackgroundColor = ''hsl(0, 0%, 0%)''\<rparr>"
  have digits: "list_all isDigit ''12''" "list_all isDigit ''34''" "list_all isDigit ''56''"
    "list_all isDigit ''0''" "list_all isDigit ''5''" "list_all isDigit ''04''"
    by (simp_all add: isDigit_def)
  have "list_all isDigit ''12'' \<and> ''12'' \<noteq> [] \<and> list_all isDigit ''34'' \<and> ''34'' \<noteq> [] \<and>
      list_all isDigit ''56'' \<and> ''56'' \<noteq> [] \<longrightarrow>
      signalColor (rgbText ''12'' ''34'' ''56'') =
        Some \<lparr>r = real (decimal ''12''), g = real (decimal ''34''), b = real (decimal ''56''), a = Some 1\<rparr>"
    using computePageIsDark_fallback [where p = ?p1 and ?m1.0 = "''12''" and ?m2.0 = "''34''"
        and ?m3.0 = "''56''" and ip = "''0''" and fp = "''5''"]
    by (elim conjE) assumption
  then have w1: "signalColor ''rgb(12, 34, 56)'' = Some \<lparr>r = 12, g = 34, b = 56, a = Some 1\<rparr>"
    using digits by (simp add: rgbText_def decimal_def)
  have "list_all isDigit ''12'' \<and> ''12'' \<noteq> [] \<and> list_all isDigit ''34'' \<and> ''34'' \<noteq> [] \<and>
      list_all isDigit ''56'' \<and> ''56'' \<noteq> [] \<and> list_all isDigit ''0'' \<and> ''0'' \<noteq> [] \<and>
      list_all isDigit ''5'' \<and> ''5'' \<noteq> [] \<longrightarrow>
      signalColor (rgbaText ''12'' ''34'' ''56'' (''0'' @ ''.'' @ ''5'')) =
        (if 0.05 < real (decimal ''0'') + real (decimal ''5'') / 10 ^ length ''5''
         then Some \<lparr>r = real (decimal ''12''), g = real (decimal ''34''), b = real (decimal ''56''),
                    a = Some (real (decimal ''0'') + real (decimal ''5'') / 10 ^ length ''5'')\<rparr>
         else None)"
    using computePageIsDark_fallback [where p = ?p1 and ?m1.0 = "''12''" and ?m2.0 = "''34''"
        and ?m3.0 = "''56''" and ip = "''0''" and fp = "''5''"]
    by (elim conjE) assumption
  then have w2: "signalColor ''rgba(12, 34, 56, 0.5)'' = Some \<lparr>r = 12, g = 34, b = 56, a = Some 0.5\<rparr>"
    using digits by (simp add: rgbaText_def decimal_def)
  have "list_all isDigit ''12'' \<and> ''12'' \<noteq> [] \<and> list_all isDigit ''34'' \<and> ''34'' \<noteq> [] \<and>
      list_all isDigit ''56'' \<and> ''56'' \<noteq> [] \<and> list_all isDigit ''0'' \<and> ''0'' \<noteq> [] \<and>
      list_all isDigit ''04'' \<and> ''04'' \<noteq> [] \<longrightarrow>
      signalColor (rgbaText ''12'' ''34'' ''56'' (''0'' @ ''.'' @ ''04'')) =
        (if 0.05 < real (decimal ''0'') + real (decimal ''04'') / 10 ^ length ''04''
         then Some \<lparr>r = real (decimal ''12''), g = real (decimal ''34''), b = real (decimal ''56''),
                    a = Some (real (decimal ''0'') + real (decimal ''04'') / 10 ^ length ''04'')\<rparr>
         else None)"
    using computePageIsDark_fallback [where p = ?p1 and ?m1.0 = "''12''" and ?m2.0 = "''34''"
        and ?m3.0 = "''56''" and ip = "''0''" and fp = "''04''"]
    by (elim conjE) assumption
  then have w3: "signalColor ''rgba(12, 34, 56, 0.04)'' = None"
    using digits by (simp add: rgbaText_def decimal_def)
  have "bodyBackgroundColor ?p1 = Some ''rgba(0, 0, 0, 0.9)'' \<longrightarrow> computePageIsDark ?p1"
    using computePageIsDark_fallback [where p = ?p1 and ?m1.0 = "''12''" and ?m2.0 = "''34''"
        and ?m3.0 = "''56''" and ip = "''0''" and fp = "''5''"]
    by (elim conjE) assumption
  then have d1: "computePageIsDark ?p1" by simp
  have "bodyBackgroundColor ?p2 = Some ''rgb(255, 255, 255)'' \<longrightarrow> \<not> computePageIsDark ?p2"
    using computePageIsDark_fallback [where p = ?p2 and ?m1.0 = "''12''" and ?m2.0 = "''34''"
        and ?m3.0 = "''56''" and ip = "''0''" and fp = "''5''"]
    by (elim conjE) assumption
  then have d2: "\<not> computePageIsDark ?p2" by simp
  have "bodyBackgroundColor ?p3 = Some ''rgba(0, 0, 0, 0)'' \<and> rootBackgroundColor ?p3 = ''rgb(0, 0, 0)'' \<longrightarrow>
      computePageIsDark ?p3"
    using computePageIsDark_fallback [where p = ?p3 and ?m1.0 = "''12''" and ?m2.0 = "''34''"
        and ?m3.0 = "''56''" and ip = "''0''" and fp = "''5''"]
    by (elim conjE) assumption
  then have d3: "computePageIsDark ?p3" by simp
  have nosignal: "signalColor ''white'' = None"
    using computePageIsDark_fallback [where p = ?p4 and ?m1.0 = "''12''" and ?m2.0 = "''34''"
        and ?m3.0 = "''56''" and ip = "''0''" and fp = "''5''"]
    by (elim conjE) assumption
  have nosignal': "signalColor ''hsl(0, 0%, 0%)'' = None"
    using computePageIsDark_fallback [where p = ?p4 and ?m1.0 = "''12''" and ?m2.0 = "''34''"
        and ?m3.0 = "''56''" and ip = "''0''" and fp = "''5''"]
    by (elim conjE) assumption
  have "(case bodyBackgroundColor ?p4 of None \<Rightarrow> None | Some s \<Rightarrow> signalColor s) = None \<and>
      signalColor (rootBackgroundColor ?p4) = None \<longrightarrow> \<not> computePageIsDark ?p4"
    using computePageIsDark_fallback [where p = ?p4 and ?m1.0 = "''12''" and ?m2.0 = "''34''"
        and ?m3.0 = "''56''" and ip = "''0''" and fp = "''5''"]
    by (elim conjE) assumption
  then have d4: "\<not> computePageIsDark ?p4" using nosignal nosignal' by simp
  from w1 w2 w3 d1 d2 d3 d4 show ?thesis by (intro conjI)
qed

section \<open>Properties of the document operations\<close>

lemma attrs_distinct: "SCHEME_ATTR \<noteq> INVERT_ATTR"
  by (simp add: SCHEME_ATTR_def INVERT_ATTR_def)

lemma find_None_filter: "find P xs = None \<longleftrightarrow> filter P xs = []"
  by (induction xs) auto

lemma find_Some_filter: "find P xs = Some x \<Longrightarrow> \<exists>ys. filter P xs = x # ys"
  by (induction xs) (auto split: if_splits)

lemma find_Some_holds: "find P xs = Some x \<Longrightarrow> P x"
  by (induction xs) (auto split: if_splits)

lemma filter_remove1_found:
  "find P xs = Some x \<Longrightarrow> filter P (remove1 x xs) = tl (filter P xs)"
proof (induction xs)
  case Nil
  then show ?case by simp
next
  case (Cons y ys)
  then show ?case by (auto split: if_splits dest: find_Some_holds)
qed

lemma filter_remove1_other:
  "find P xs = Some x \<Longrightarrow> filter (\<lambda>e. \<not> P e) (remove1 x xs) = filter (\<lambda>e. \<not> P e) xs"
proof (induction xs)
  case Nil
  then show ?case by simp
next
  case (Cons y ys)
  then show ?case by (auto split: if_splits dest: find_Some_holds)
qed

lemma managedStyles_ensure:
  "managedStyles (ensureStyleElement d) =
     (if managedStyles d = []
      then [\<lparr>elementId = STYLE_ID, tagName = ''style'', textContent = styleText,
              parentNode = (if hasHead d then Head else DocumentElement)\<rparr>]
      else managedStyles d)"
proof (cases "getElementById d STYLE_ID")
  case None
  then have "managedStyles d = []"
    by (simp add: getElementById_def managedStyles_def find_None_filter)
  with None show ?thesis
    by (simp add: ensureStyleElement_def managedStyles_def)
next
  case (Some e)
  then have "managedStyles d \<noteq> []"
    using find_Some_filter [of "\<lambda>e. elementId e = STYLE_ID" "elements d" e]
    by (auto simp: getElementById_def managedStyles_def)
  with Some show ?thesis
    by (simp add: ensureStyleElement_def)
qed

lemma managedStyles_applyTheme:
  "managedStyles (applyTheme scheme invert d) = managedStyles (ensureStyleElement d)"
  by (simp add: applyTheme_def setAttribute_def managedStyles_def)

lemma managedStyles_clearTheme: "managedStyles (clearTheme d) = tl (managedStyles d)"
proof (cases "getElementById d STYLE_ID")
  case None
  then have "managedStyles d = []"
    by (simp add: getElementById_def managedStyles_def find_None_filter)
  with None show ?thesis
    by (simp add: clearTheme_def managedStyles_def removeAttribute_def getElementById_def)
next
  case (Some e)
  then show ?thesis
    by (simp add: clearTheme_def managedStyles_def removeAttribute_def getElementById_def
        filter_remove1_found)
qed

lemma singleton_runOp: "length (managedStyles d) \<le> 1 \<Longrightarrow> length (managedStyles (runOp x d)) \<le> 1"
  by (cases x) (simp_all add: managedStyles_applyTheme managedStyles_ensure managedStyles_clearTheme)

lemma singleton_runOps: "length (managedStyles d) \<le> 1 \<Longrightarrow> length (managedStyles (runOps xs d)) \<le> 1"
proof (induction xs arbitrary: d)
  case Nil
  then show ?case by simp
next
  case (Cons x xs)
  from Cons.prems have "length (managedStyles (runOp x d)) \<le> 1" by (rule singleton_runOp)
  then show ?case using Cons.IH by simp
qed

lemma ensureStyleElement_idem: "ensureStyleElement (ensureStyleElement d) = ensureStyleElement d"
proof -
  have "managedStyles (ensureStyleElement d) \<noteq> []"
    by (simp add: managedStyles_ensure)
  then have "getElementById (ensureStyleElement d) STYLE_ID \<noteq> None"
    by (simp add: getElementById_def managedStyles_def find_None_filter)
  then show ?thesis
    by (auto simp: ensureStyleElement_def [of "ensureStyleElement d"])
qed

lemma ensureStyleElement_attrs: "rootAttributes (ensureStyleElement d) = rootAttributes d"
  by (simp add: ensureStyleElement_def split: option.splits)

lemma ensureStyleElement_setAttribute:
  "ensureStyleElement (setAttribute k v d) = setAttribute k v (ensureStyleElement d)"
  by (simp add: ensureStyleElement_def setAttribute_def getElementById_def split: option.splits)

lemma update2_idem:
  assumes "k \<noteq> k'"
  shows "AList.update k' v' (AList.update k v (AList.update k' v' (AList.update k v al))) =
         AList.update k' v' (AList.update k v al)"
proof -
  let ?al = "AList.update k' v' (AList.update k v al)"
  have "map_of ?al k = Some v" using assms by (simp add: update_conv')
  then have "AList.update k v ?al = ?al" by (rule update_triv)
  moreover have "map_of ?al k' = Some v'" by (simp add: update_conv')
  then have "AList.update k' v' ?al = ?al" by (rule update_triv)
  ultimately show ?thesis by simp
qed

lemma applyTheme_idem: "applyTheme scheme invert (applyTheme scheme invert d) = applyTheme scheme invert d"
proof -
  have "applyTheme scheme invert (applyTheme scheme invert d) =
      setAttribute INVERT_ATTR (if invert then ''true'' else ''false'')
       (setAttribute SCHEME_ATTR (schemeName scheme)
         (setAttribute INVERT_ATTR (if invert then ''true'' else ''false'')
           (setAttribute SCHEME_ATTR (schemeName scheme) (ensureStyleElement d))))"
    by (simp add: applyTheme_def ensureStyleElement_setAttribute ensureStyleElement_idem)
  also have "\<dots> = applyTheme scheme invert d"
    by (simp add: applyTheme_def setAttribute_def update2_idem [OF attrs_distinct])
  finally show ?thesis .
qed


lemma clearTheme_attrs:
  "map_of (rootAttributes (clearTheme d)) = (map_of (rootAttributes d))(SCHEME_ATTR := None, INVERT_ATTR := None)"
  by (simp add: clearTheme_def removeAttribute_def Let_def delete_conv' split: option.splits)

lemma applyTheme_attrs:
  "map_of (rootAttributes (applyTheme scheme invert d)) =
     (map_of (rootAttributes d))(SCHEME_ATTR \<mapsto> schemeName scheme,
        INVERT_ATTR \<mapsto> (if invert then ''true'' else ''false''))"
  by (simp add: applyTheme_def setAttribute_def update_conv' ensureStyleElement_attrs)

text \<open>
  Where a pass agrees with the specification: with an empty hostname, or with a hostname
  that is neither an own property of \<open>siteOverrides\<close> nor a name of \<open>Object.prototype\<close>, it
  does what \<open>clearTheme\<close> does, whatever the document was before. The scheme and the invert
  attribute of the root element are absent afterwards, its other attributes are as before,
  and the first element with the managed id is removed while the elements with other ids
  stay; when the document held at most one element with the managed id, none is left.
\<close>

lemma no_property_forces_inactive:
  assumes "pageHostname p = [] \<or> readOverride (siteOverrides s) (pageHostname p) = NoProperty"
  shows "applyThemeFromSettings p bl s d = clearTheme d \<and>
         map_of (rootAttributes (clearTheme d)) SCHEME_ATTR = None \<and>
         map_of (rootAttributes (clearTheme d)) INVERT_ATTR = None \<and>
         (\<forall>k. k \<noteq> SCHEME_ATTR \<and> k \<noteq> INVERT_ATTR \<longrightarrow>
              map_of (rootAttributes (clearTheme d)) k = map_of (rootAttributes d) k) \<and>
         managedStyles (clearTheme d) = tl (managedStyles d) \<and>
         filter (\<lambda>e. elementId e \<noteq> STYLE_ID) (elements (clearTheme d)) =
           filter (\<lambda>e. elementId e \<noteq> STYLE_ID) (elements d) \<and>
         (length (managedStyles d) \<le> 1 \<longrightarrow> getElementById (clearTheme d) STYLE_ID = None)"
proof -
  have pass: "applyThemeFromSettings p bl s d = clearTheme d"
    using assms by (auto simp: applyThemeFromSettings_def Let_def)
  have gone: "getElementById (clearTheme d) STYLE_ID = None" if "length (managedStyles d) \<le> 1"
  proof -
    from that have "tl (managedStyles d) = []" by (cases "managedStyles d") simp_all
    then have "managedStyles (clearTheme d) = []" by (simp add: managedStyles_clearTheme)
    then show ?thesis by (simp add: getElementById_def managedStyles_def find_None_filter)
  qed
  have others: "filter (\<lambda>e. elementId e \<noteq> STYLE_ID) (elements (clearTheme d)) =
           filter (\<lambda>e. elementId e \<noteq> STYLE_ID) (elements d)"
    by (simp add: clearTheme_def removeAttribute_def getElementById_def filter_remove1_other
        Let_def split: option.splits)
  show ?thesis
    using pass gone others by (simp add: clearTheme_attrs managedStyles_clearTheme)
qed

lemma no_property_example:
  "applyThemeFromSettings
     \<lparr>location = \<lparr>hostname = ''other.org'', host = ''other.org''\<rparr>, prefersDarkMatches = True,
      bodyBackgroundColor = Some ''rgb(255, 255, 255)'', rootBackgroundColor = ''rgba(0, 0, 0, 0)''\<rparr>
     None \<lparr>defaultMode = System, siteOverrides = [(''example.com'', Dark)]\<rparr>
     (applyTheme SchemeDark True \<lparr>rootAttributes = [(''lang'', ''en'')], hasHead = True, elements = []\<rparr>) =
   \<lparr>rootAttributes = [(''lang'', ''en'')], hasHead = True, elements = []\<rparr>"
proof -
  let ?p = "\<lparr>location = \<lparr>hostname = ''other.org'', host = ''other.org''\<rparr>, prefersDarkMatches = True,
      bodyBackgroundColor = Some ''rgb(255, 255, 255)'', rootBackgroundColor = ''rgba(0, 0, 0, 0)''\<rparr>"
  let ?s = "\<lparr>defaultMode = System, siteOverrides = [(''example.com'', Dark)]\<rparr>"
  let ?d = "applyTheme SchemeDark True \<lparr>rootAttributes = [(''lang'', ''en'')], hasHead = True, elements = []\<rparr>"
  have "pageHostname ?p = [] \<or> readOverride (siteOverrides ?s) (pageHostname ?p) = NoProperty"
    by (simp add: pageHostname_def readOverride_def objectPrototypeNames_def)
  from no_property_forces_inactive [OF this, of None ?d]
  have "applyThemeFromSettings ?p None ?s ?d = clearTheme ?d" by blast
  also have "clearTheme ?d = \<lparr>rootAttributes = [(''lang'', ''en'')], hasHead = True, elements = []\<rparr>"
    by (simp add: clearTheme_def applyTheme_def ensureStyleElement_def getElementById_def
        setAttribute_def removeAttribute_def SCHEME_ATTR_def INVERT_ATTR_def STYLE_ID_def AList.delete_eq)
  finally show ?thesis .
qed

lemma black_000: "parseColor ''rgb(0, 0, 0)'' = Some \<lparr>r = 0, g = 0, b = 0, a = Some 1\<rparr>"
  by (simp add: parseColor_def matchColor_def many1_def isDigit_def isWhitespace_def decimal_def)

text \<open>
  Claim C7. The claim is that a pass with a hostname that has no entry in \<open>siteOverrides\<close>
  forces the inactive state. The code does not, when the hostname is a name of
  \<open>Object.prototype\<close>: on the page \<open>http://constructor/\<close>, black, with no override at all and
  a document nothing was applied to, the lookup \<open>siteOverrides[hostname]\<close> reads the inherited
  function, which is truthy, and the pass applies a theme: it injects the managed
  stylesheet, writes the scheme attribute and sets invert to \<open>true\<close>, where \<open>clearTheme\<close>
  would have left the document as it was.
\<close>

theorem inherited_hostname_applies_theme:
  "map_of (siteOverrides \<lparr>defaultMode = System, siteOverrides = []\<rparr>) ''constructor'' = None \<and>
   readOverride (siteOverrides \<lparr>defaultMode = System, siteOverrides = []\<rparr>) ''constructor'' =
     InheritedMember ''constructor'' \<and>
   applyThemeFromSettings
     \<lparr>location = \<lparr>hostname = ''constructor'', host = ''constructor''\<rparr>, prefersDarkMatches = False,
      bodyBackgroundColor = Some ''rgb(0, 0, 0)'', rootBackgroundColor = ''rgba(0, 0, 0, 0)''\<rparr>
     None \<lparr>defaultMode = System, siteOverrides = []\<rparr>
     \<lparr>rootAttributes = [], hasHead = True, elements = []\<rparr> =
   \<lparr>rootAttributes = [(SCHEME_ATTR, ''function Object() { [native code] }''), (INVERT_ATTR, ''true'')],
    hasHead = True,
    elements = [\<lparr>elementId = STYLE_ID, tagName = ''style'', textContent = styleText, parentNode = Head\<rparr>]\<rparr> \<and>
   clearTheme \<lparr>rootAttributes = [], hasHead = True, elements = []\<rparr> =
     \<lparr>rootAttributes = [], hasHead = True, elements = []\<rparr>"
proof -
  have dark: "computePageIsDark
     \<lparr>location = \<lparr>hostname = ''constructor'', host = ''constructor''\<rparr>, prefersDarkMatches = False,
      bodyBackgroundColor = Some ''rgb(0, 0, 0)'', rootBackgroundColor = ''rgba(0, 0, 0, 0)''\<rparr>"
    by (simp add: computePageIsDark_def getReadableBackground_def readable_def black_000
        relativeLuminance_black)
  have look: "readOverride [] ''constructor'' = InheritedMember ''constructor''"
    by (simp add: readOverride_def objectPrototypeNames_def)
  have clear: "clearTheme \<lparr>rootAttributes = [], hasHead = True, elements = []\<rparr> =
     \<lparr>rootAttributes = [], hasHead = True, elements = []\<rparr>"
    by (simp add: clearTheme_def removeAttribute_def getElementById_def)
  show ?thesis
    using dark look clear
    by (simp add: applyThemeFromSettings_def pageHostname_def inheritedText_def
        ensureStyleElement_def getElementById_def setAttribute_def attrs_distinct)
qed

text \<open>
  Claim C8. From a document with at most one element of the managed id (in particular one
  the content script has not touched), every sequence of \<open>applyTheme\<close> and \<open>clearTheme\<close>
  leaves at most one such element, and \<open>applyTheme\<close> leaves exactly one. Applying the
  same scheme and invert value a second time leaves the document as the first application
  left it: the same attributes and the same elements.
\<close>

theorem applyTheme_idempotent_singleton:
  "(length (managedStyles d) \<le> 1 \<longrightarrow>
      length (managedStyles (runOps xs d)) \<le> 1 \<and>
      length (managedStyles (applyTheme scheme invert d)) = 1) \<and>
   applyTheme scheme invert (applyTheme scheme invert d) = applyTheme scheme invert d"
proof -
  have "length (managedStyles (applyTheme scheme invert d)) = 1" if "length (managedStyles d) \<le> 1"
    using that by (cases "managedStyles d") (simp_all add: managedStyles_applyTheme managedStyles_ensure)
  then show ?thesis
    using singleton_runOps [of d xs] applyTheme_idem by blast
qed

theorem applyTheme_idempotent_singleton_witness:
  "length (managedStyles (runOps [ApplyTheme SchemeDark True, ApplyTheme SchemeDark True, ClearTheme,
       ApplyTheme SchemeLight False, ApplyTheme SchemeDark False]
     \<lparr>rootAttributes = [], hasHead = True, elements = []\<rparr>)) \<le> 1"
proof -
  let ?d = "\<lparr>rootAttributes = [], hasHead = True, elements = []\<rparr>"
  let ?xs = "[ApplyTheme SchemeDark True, ApplyTheme SchemeDark True, ClearTheme,
       ApplyTheme SchemeLight False, ApplyTheme SchemeDark False]"
  have "length (managedStyles ?d) \<le> 1" by (simp add: managedStyles_def)
  with applyTheme_idempotent_singleton [of ?d ?xs] show ?thesis by blast
qed

section \<open>Resolving the scheme\<close>

lemma white_255: "parseColor ''rgb(255, 255, 255)'' = Some \<lparr>r = 255, g = 255, b = 255, a = Some 1\<rparr>"
  by (simp add: parseColor_def matchColor_def many1_def isDigit_def isWhitespace_def decimal_def)

text \<open>
  Claim C4. \<open>resolveScheme\<close> maps \<open>system\<close> to dark when the media query matches and to
  light otherwise, and \<open>light\<close> and \<open>dark\<close> to themselves. With the stored settings
  \<open>{defaultMode: "system", siteOverrides: {"example.com": "dark"}}\<close>, the system preferring
  light and a white body background on \<open>example.com\<close>, the page is not dark and a pass
  applies the scheme dark with invert true, whether the brightness sample was cached or
  not.
\<close>

theorem resolveScheme_spec:
  "resolveScheme pd System = (if pd then SchemeDark else SchemeLight) \<and>
   resolveScheme pd Light = SchemeLight \<and> schemeName (resolveScheme pd Light) = modeName Light \<and>
   resolveScheme pd Dark = SchemeDark \<and> schemeName (resolveScheme pd Dark) = modeName Dark \<and>
   asThemeSettings (normalizeSettings
      (JObj [(''defaultMode'', JStr ''system''), (''siteOverrides'', JObj [(''example.com'', JStr ''dark'')])])) =
     Some \<lparr>defaultMode = System, siteOverrides = [(''example.com'', Dark)]\<rparr> \<and>
   \<not> computePageIsDark \<lparr>location = \<lparr>hostname = ''example.com'', host = ''example.com''\<rparr>,
        prefersDarkMatches = False, bodyBackgroundColor = Some ''rgb(255, 255, 255)'',
        rootBackgroundColor = rootbg\<rparr> \<and>
   applyThemeFromSettings
     \<lparr>location = \<lparr>hostname = ''example.com'', host = ''example.com''\<rparr>,
        prefersDarkMatches = False, bodyBackgroundColor = Some ''rgb(255, 255, 255)'',
        rootBackgroundColor = rootbg\<rparr>
     None \<lparr>defaultMode = System, siteOverrides = [(''example.com'', Dark)]\<rparr> d =
     applyTheme SchemeDark True d \<and>
   applyThemeFromSettings
     \<lparr>location = \<lparr>hostname = ''example.com'', host = ''example.com''\<rparr>,
        prefersDarkMatches = False, bodyBackgroundColor = Some ''rgb(255, 255, 255)'',
        rootBackgroundColor = rootbg\<rparr>
     (Some (computePageIsDark
        \<lparr>location = \<lparr>hostname = ''example.com'', host = ''example.com''\<rparr>,
          prefersDarkMatches = False, bodyBackgroundColor = Some ''rgb(255, 255, 255)'',
          rootBackgroundColor = rootbg\<rparr>))
     \<lparr>defaultMode = System, siteOverrides = [(''example.com'', Dark)]\<rparr> d =
     applyTheme SchemeDark True d \<and>
   map_of (rootAttributes (applyTheme SchemeDark True d)) SCHEME_ATTR = Some ''dark'' \<and>
   map_of (rootAttributes (applyTheme SchemeDark True d)) INVERT_ATTR = Some ''true''"
proof -
  let ?p = "\<lparr>location = \<lparr>hostname = ''example.com'', host = ''example.com''\<rparr>,
        prefersDarkMatches = False, bodyBackgroundColor = Some ''rgb(255, 255, 255)'',
        rootBackgroundColor = rootbg\<rparr>"
  have norm: "asThemeSettings (normalizeSettings
      (JObj [(''defaultMode'', JStr ''system''), (''siteOverrides'', JObj [(''example.com'', JStr ''dark'')])])) =
     Some \<lparr>defaultMode = System, siteOverrides = [(''example.com'', Dark)]\<rparr>"
    by (simp add: normalizeSettings_def asThemeSettings_def isThemeMode_def assignProperty_def)
  have light: "\<not> computePageIsDark ?p"
    by (simp add: computePageIsDark_def getReadableBackground_def readable_def white_255
        relativeLuminance_white)
  then have pass: "applyThemeFromSettings ?p None
      \<lparr>defaultMode = System, siteOverrides = [(''example.com'', Dark)]\<rparr> d = applyTheme SchemeDark True d"
    by (simp add: applyThemeFromSettings_def pageHostname_def shouldInvert_def readOverride_def)
  from light have cached: "applyThemeFromSettings ?p (Some (computePageIsDark ?p))
      \<lparr>defaultMode = System, siteOverrides = [(''example.com'', Dark)]\<rparr> d = applyTheme SchemeDark True d"
    by (simp add: applyThemeFromSettings_def pageHostname_def shouldInvert_def readOverride_def)
  show ?thesis
    using norm light pass cached by (simp add: applyTheme_attrs attrs_distinct)
qed

section \<open>The popup's mode buttons\<close>

text \<open>
  Claim C10. With an active hostname, \<open>setMode(mode)\<close> writes settings in which
  \<open>defaultMode\<close> and the override of the active host are both \<open>mode\<close> and every other
  override is as before; with no active hostname it writes settings that differ from the
  current ones in \<open>defaultMode\<close> only. The value written to the store is the new state.
\<close>

theorem setMode_effect:
  "(activeHost st = Some h \<and> h \<noteq> [] \<longrightarrow>
      defaultMode (settings (setMode mode st)) = mode \<and>
      map_of (siteOverrides (settings (setMode mode st))) h = Some mode \<and>
      (\<forall>k. k \<noteq> h \<longrightarrow>
         map_of (siteOverrides (settings (setMode mode st))) k = map_of (siteOverrides (settings st)) k) \<and>
      stored (setMode mode st) = Some (settings (setMode mode st))) \<and>
   (activeHost st = None \<or> activeHost st = Some [] \<longrightarrow>
      settings (setMode mode st) = (settings st)\<lparr>defaultMode := mode\<rparr> \<and>
      siteOverrides (settings (setMode mode st)) = siteOverrides (settings st) \<and>
      stored (setMode mode st) = Some (settings (setMode mode st)))"
  by (auto simp: setMode_def updateSettings_def update_conv' Let_def)

theorem setMode_effect_witness:
  "settings (setMode Dark \<lparr>settings = \<lparr>defaultMode = System, siteOverrides = [(''a.org'', Light)]\<rparr>,
        activeHost = Some ''b.org'', stored = None\<rparr>) =
     \<lparr>defaultMode = Dark, siteOverrides = [(''a.org'', Light), (''b.org'', Dark)]\<rparr> \<and>
   settings (setMode Dark \<lparr>settings = \<lparr>defaultMode = System, siteOverrides = [(''a.org'', Light)]\<rparr>,
        activeHost = None, stored = None\<rparr>) =
     \<lparr>defaultMode = Dark, siteOverrides = [(''a.org'', Light)]\<rparr>"
  using setMode_effect [of "\<lparr>settings = \<lparr>defaultMode = System, siteOverrides = [(''a.org'', Light)]\<rparr>,
        activeHost = Some ''b.org'', stored = None\<rparr>" "''b.org''" Dark]
    setMode_effect [of "\<lparr>settings = \<lparr>defaultMode = System, siteOverrides = [(''a.org'', Light)]\<rparr>,
        activeHost = None, stored = None\<rparr>" "''b.org''" Dark]
  by (simp add: setMode_def updateSettings_def Let_def)


end
